theory Spec2Isabelle
  imports Complex_Main "HOL-Library.Char_ord" "HOL-Library.List_Lexorder" "HOL-Library.Sublist"
begin

section \<open>Chunker (index.js, run: "Split into chunks if needed")\<close>

text \<open>
  JavaScript's \<^verbatim>\<open>Array.prototype.slice(start, end)\<close> for
  \<open>0 \<le> start \<le> end\<close>: both bounds are clamped to the length of the array.
\<close>

definition slice :: "'a list \<Rightarrow> nat \<Rightarrow> nat \<Rightarrow> 'a list" where
  "slice xs start end = take (end - start) (drop start xs)"

text \<open>
  \<^verbatim>\<open>
  const chunks = [];
  for (let i = 0; i < urls.length; i += MAX_URLS_PER_SITEMAP) {
    chunks.push(urls.slice(i, i + MAX_URLS_PER_SITEMAP));
  }
  \<close>
  The limit is a natural number here. With limit \<open>0\<close> and a non-empty list the
  index never advances and the loop does not finish: that outcome is \<open>None\<close>.
\<close>

function chunk_loop :: "nat \<Rightarrow> 'a list \<Rightarrow> nat \<Rightarrow> 'a list list \<Rightarrow> 'a list list option" where
  "chunk_loop m urls i chunks =
     (if i < length urls
      then (if m = 0 then None
            else chunk_loop m urls (i + m) (chunks @ [slice urls i (i + m)]))
      else Some chunks)"
  by pat_completeness auto
termination
  by (relation "measure (\<lambda>(m, urls, i, chunks). length urls - i)") auto

declare chunk_loop.simps [simp del]

definition split_chunks :: "nat \<Rightarrow> 'a list \<Rightarrow> 'a list list option" where
  "split_chunks m urls = chunk_loop m urls 0 []"

section \<open>Strings and the regular expressions of the validator\<close>

text \<open>
  A JavaScript string is a list of characters; a character stands for one code unit
  below 256. The functions of this section are the string methods and the literal
  regular expressions that \<^verbatim>\<open>sitemap-validator.js\<close> and \<^verbatim>\<open>url-builder.js\<close> apply.
\<close>

definition CR :: char where
  "CR = CHR 0x0D"

definition LF :: char where
  "LF = CHR 0x0A"

text \<open>The characters that \<^verbatim>\<open>.\<close> does not match in a regular expression without the \<^verbatim>\<open>s\<close> flag.\<close>

definition isLineTerminator :: "char \<Rightarrow> bool" where
  "isLineTerminator c = (c = LF \<or> c = CR)"

text \<open>White space of \<^verbatim>\<open>String.prototype.trim\<close> and of the class \<^verbatim>\<open>\s\<close>.\<close>

definition isWhiteSpace :: "char \<Rightarrow> bool" where
  "isWhiteSpace c = (of_char c \<in> {9, 10, 11, 12, 13, 32, 160 :: nat})"

definition trim :: "string \<Rightarrow> string" where
  "trim s = rev (dropWhile isWhiteSpace (rev (dropWhile isWhiteSpace s)))"

text \<open>
  Matching under the \<^verbatim>\<open>i\<close> flag: the patterns of the program are ASCII, and a
  character of the subject matches an ASCII letter of the pattern exactly when it is
  that letter in either case. The letters \<open>A\<close> to \<open>Z\<close> are the code units 0x41 to
  0x5A: bit 7 clear, bit 6 set, bit 5 clear and the low five bits a number from 1
  to 26; setting bit 5 gives the lower-case letter.
\<close>

fun toLowerAscii :: "char \<Rightarrow> char" where
  "toLowerAscii (Char b0 b1 b2 b3 b4 b5 b6 b7) =
     (if \<not> b7 \<and> b6 \<and> \<not> b5 \<and> (b0 \<or> b1 \<or> b2 \<or> b3 \<or> b4)
           \<and> \<not> (b4 \<and> b3 \<and> (b2 \<or> (b1 \<and> b0)))
      then Char b0 b1 b2 b3 b4 True b6 b7
      else Char b0 b1 b2 b3 b4 b5 b6 b7)"

definition ci_eq :: "char \<Rightarrow> char \<Rightarrow> bool" where
  "ci_eq a b = (toLowerAscii a = toLowerAscii b)"

text \<open>\<^verbatim>\<open>s.startsWith(p)\<close>, and the same test under the \<^verbatim>\<open>i\<close> flag.\<close>

fun startsWith :: "string \<Rightarrow> string \<Rightarrow> bool" where
  "startsWith s [] = True"
| "startsWith [] (p # ps) = False"
| "startsWith (c # cs) (p # ps) = (c = p \<and> startsWith cs ps)"

fun startsWith_ci :: "string \<Rightarrow> string \<Rightarrow> bool" where
  "startsWith_ci s [] = True"
| "startsWith_ci [] (p # ps) = False"
| "startsWith_ci (c # cs) (p # ps) = (ci_eq c p \<and> startsWith_ci cs ps)"

text \<open>\<^verbatim>\<open>s.includes(p)\<close>, and \<^verbatim>\<open>/p/i.test(s)\<close> for a literal pattern.\<close>

fun includes_s :: "string \<Rightarrow> string \<Rightarrow> bool" where
  "includes_s [] p = (p = [])"
| "includes_s (c # cs) p = (startsWith (c # cs) p \<or> includes_s cs p)"

fun includes_ci :: "string \<Rightarrow> string \<Rightarrow> bool" where
  "includes_ci [] p = (p = [])"
| "includes_ci (c # cs) p = (startsWith_ci (c # cs) p \<or> includes_ci cs p)"

text \<open>\<^verbatim>\<open>/<name[\s>]/i.test(s)\<close>, with \<open>p\<close> the literal part \<^verbatim>\<open><name\<close>.\<close>

fun test_open_tag :: "string \<Rightarrow> string \<Rightarrow> bool" where
  "test_open_tag [] p = False"
| "test_open_tag (c # cs) p =
     ((startsWith_ci (c # cs) p \<and>
        (case drop (length p) (c # cs) of [] \<Rightarrow> False | d # _ \<Rightarrow> isWhiteSpace d \<or> d = CHR ''>''))
      \<or> test_open_tag cs p)"

text \<open>
  \<^verbatim>\<open>(s.match(/p/gi) || []).length\<close> for a literal non-empty pattern: the matches are
  found from left to right and do not overlap.
\<close>

fun count_matches_ci :: "string \<Rightarrow> string \<Rightarrow> nat" where
  "count_matches_ci [] p = 0"
| "count_matches_ci (c # cs) p =
     (if startsWith_ci (c # cs) p then Suc (count_matches_ci (drop (length p - 1) cs) p)
      else count_matches_ci cs p)"

text \<open>
  The lazy group and the closing tag of \<^verbatim>\<open>/<tag>(.*?)<\/tag>/gi\<close>, tried at one
  position: the shortest run of characters other than line terminators that is followed
  by the closing tag \<open>cl\<close>. The result is the run and the rest of the subject after the
  closing tag; \<open>None\<close> when a line terminator or the end comes first.
\<close>

fun lazy_until :: "string \<Rightarrow> string \<Rightarrow> (string \<times> string) option" where
  "lazy_until cl [] = (if cl = [] then Some ([], []) else None)"
| "lazy_until cl (c # cs) =
     (if startsWith_ci (c # cs) cl then Some ([], drop (length cl) (c # cs))
      else if isLineTerminator c then None
      else (case lazy_until cl cs of None \<Rightarrow> None
            | Some (inner, rest) \<Rightarrow> Some (c # inner, rest)))"

lemma lazy_until_length: "lazy_until cl s = Some (inner, rest) \<Longrightarrow> length rest \<le> length s"
  by (induction s arbitrary: inner rest) (auto split: if_splits option.splits)

text \<open>
  \<^verbatim>\<open>s.match(/<tag>(.*?)<\/tag>/gi) || []\<close>: every match as the text it covers, from
  left to right. \<open>op\<close> is \<^verbatim>\<open><tag>\<close> and \<open>cl\<close> is \<^verbatim>\<open></tag>\<close>. Where the opening tag
  matches and the rest does not, the search goes on at the next character; after a match
  it goes on behind the match.
\<close>

function match_elements :: "string \<Rightarrow> string \<Rightarrow> string \<Rightarrow> string list" where
  "match_elements op cl [] = []"
| "match_elements op cl (c # cs) =
     (if startsWith_ci (c # cs) op
      then (case lazy_until cl (drop (length op - 1) cs) of
              None \<Rightarrow> match_elements op cl cs
            | Some (inner, rest) \<Rightarrow>
                take (length (c # cs) - length rest) (c # cs) # match_elements op cl rest)
      else match_elements op cl cs)"
  by pat_completeness auto
termination
  by (relation "measure (\<lambda>(op, cl, s). length s)") (auto dest!: lazy_until_length)

text \<open>
  \<^verbatim>\<open>s.replace(/<\/?tag>/gi, '')\<close>: one pass from left to right that drops every
  opening tag \<open>op\<close> and closing tag \<open>cl\<close>.
\<close>

fun remove_tags :: "string \<Rightarrow> string \<Rightarrow> string \<Rightarrow> string" where
  "remove_tags op cl [] = []"
| "remove_tags op cl (c # cs) =
     (if startsWith_ci (c # cs) op then remove_tags op cl (drop (length op - 1) cs)
      else if startsWith_ci (c # cs) cl then remove_tags op cl (drop (length cl - 1) cs)
      else c # remove_tags op cl cs)"

text \<open>
  \<^verbatim>\<open>s.split(/\r?\n/)\<close>: the separators are the line feeds, each together with a
  carriage return directly before it; \<open>cur\<close> is the line read so far.
\<close>

fun split_lines_from :: "string \<Rightarrow> string \<Rightarrow> string list" where
  "split_lines_from cur [] = [cur]"
| "split_lines_from cur [c] = (if c = LF then [cur, []] else [cur @ [c]])"
| "split_lines_from cur (c # d # cs) =
     (if c = CR \<and> d = LF then cur # split_lines_from [] cs
      else if c = LF then cur # split_lines_from [] (d # cs)
      else split_lines_from (cur @ [c]) (d # cs))"

definition split_lines :: "string \<Rightarrow> string list" where
  "split_lines s = split_lines_from [] s"

text \<open>\<^verbatim>\<open>/^https?:\/\//i.test(s)\<close>\<close>

definition is_http :: "string \<Rightarrow> bool" where
  "is_http s = (startsWith_ci s ''http://'' \<or> startsWith_ci s ''https://'')"

text \<open>\<^verbatim>\<open>/[\r\n]/.test(s)\<close>\<close>

definition has_newline :: "string \<Rightarrow> bool" where
  "has_newline s = (\<exists>c \<in> set s. c = CR \<or> c = LF)"

section \<open>Validator (sitemap-validator.js)\<close>

text \<open>
  A JavaScript number as far as the validator and the configuration check look at it:
  \<^verbatim>\<open>parseFloat\<close> is a function of the runtime, taken as a parameter wherever the
  program calls it.
\<close>

datatype number = NaN | Num rat | PosInfinity | NegInfinity

fun isNaN :: "number \<Rightarrow> bool" where
  "isNaN NaN = True"
| "isNaN _ = False"

text \<open>\<^verbatim>\<open>pr < 0.0\<close> and \<^verbatim>\<open>pr > 1.0\<close>; both are false for \<^verbatim>\<open>NaN\<close>.\<close>

fun below_zero :: "number \<Rightarrow> bool" where
  "below_zero (Num q) = (q < 0)"
| "below_zero NegInfinity = True"
| "below_zero _ = False"

fun above_one :: "number \<Rightarrow> bool" where
  "above_one (Num q) = (1 < q)"
| "above_one PosInfinity = True"
| "above_one _ = False"

datatype severity = Info | Warning | Error

text \<open>
  The message of a finding, without its decoration; the numbers are the ones the text of
  the message carries.
\<close>

datatype message =
    InvalidXmlStructure
  | ValidXmlFormat
  | MissingNamespace
  | MissingUrlTags
  | MissingLocTags
  | ExceedsUrlLimit nat nat
  | ContainsInvalidUrls nat
  | InvalidChangefreqValues
  | InvalidPriorityValue
  | ValidSitemapFormat
  | ValidTxtFormat
  | NoUrlsFound
  | ContainsUrls nat

record finding =
  ftype :: severity
  message :: message

record validate_options =
  strict :: bool
  maxUrls :: nat

definition VALID_CHANGEFREQ :: "string list" where
  "VALID_CHANGEFREQ =
     [''always'', ''hourly'', ''daily'', ''weekly'', ''monthly'', ''yearly'', ''never'']"

definition sitemap_namespace :: string where
  \<open>sitemap_namespace = ''xmlns="http://www.sitemaps.org/schemas/sitemap/0.9"''\<close>

text \<open>The three loops of \<^verbatim>\<open>validateXmlSitemap\<close> over the matched elements.\<close>

definition invalid_loc :: "string \<Rightarrow> bool" where
  "invalid_loc locTag =
     (let url = remove_tags ''<loc>'' ''</loc>'' locTag
      in \<not> is_http url \<or> length url \<ge> 2048)"

definition invalid_changefreq :: "string \<Rightarrow> bool" where
  "invalid_changefreq freqTag =
     (let freq = trim (remove_tags ''<changefreq>'' ''</changefreq>'' freqTag)
      in freq \<notin> set VALID_CHANGEFREQ)"

definition invalid_priority :: "(string \<Rightarrow> number) \<Rightarrow> string \<Rightarrow> bool" where
  "invalid_priority parseFloat prTag =
     (let pr = parseFloat (trim (remove_tags ''<priority>'' ''</priority>'' prTag))
      in isNaN pr \<or> below_zero pr \<or> above_one pr)"

text \<open>
  \<^verbatim>\<open>validateXmlSitemap(xmlContent, { strict, maxUrls })\<close>. The findings are pushed in
  the order of the checks. The content is a string, so nothing in the body throws and
  the \<^verbatim>\<open>catch\<close> branch is not reached.
\<close>

definition validateXmlSitemap ::
  "(string \<Rightarrow> number) \<Rightarrow> string \<Rightarrow> validate_options \<Rightarrow> finding list" where
  "validateXmlSitemap parseFloat xmlContent opts =
     (let policy = (if strict opts then Error else Warning);
          trimmed = trim xmlContent;
          hasXmlDeclaration = startsWith trimmed ''<?xml'';
          hasUrlsetOpen = test_open_tag xmlContent ''<urlset'';
          hasUrlsetClose = includes_ci xmlContent ''</urlset>'';
          structure =
            (if \<not> hasXmlDeclaration \<or> \<not> hasUrlsetOpen \<or> \<not> hasUrlsetClose
             then [\<lparr>ftype = policy, message = InvalidXmlStructure\<rparr>]
             else [\<lparr>ftype = Info, message = ValidXmlFormat\<rparr>]);
          hasNamespace = includes_s xmlContent sitemap_namespace;
          namespace =
            (if \<not> hasNamespace then [\<lparr>ftype = policy, message = MissingNamespace\<rparr>] else []);
          hasUrlTags = (includes_s xmlContent ''<url>'' \<and> includes_s xmlContent ''</url>'');
          hasLocTags = (includes_s xmlContent ''<loc>'' \<and> includes_s xmlContent ''</loc>'');
          elements =
            (if \<not> hasUrlTags then [\<lparr>ftype = policy, message = MissingUrlTags\<rparr>]
             else if \<not> hasLocTags then [\<lparr>ftype = policy, message = MissingLocTags\<rparr>]
             else []);
          urlCount = count_matches_ci xmlContent ''<url>'';
          limit =
            (if urlCount > maxUrls opts
             then [\<lparr>ftype = policy, message = ExceedsUrlLimit urlCount (maxUrls opts)\<rparr>]
             else []);
          locMatches = match_elements ''<loc>'' ''</loc>'' xmlContent;
          invalidLocCount = length (filter invalid_loc locMatches);
          locs =
            (if invalidLocCount > 0
             then [\<lparr>ftype = Warning, message = ContainsInvalidUrls invalidLocCount\<rparr>]
             else []);
          changefreqMatches = match_elements ''<changefreq>'' ''</changefreq>'' xmlContent;
          invalidChangefreq = length (filter invalid_changefreq changefreqMatches);
          freqs =
            (if invalidChangefreq > 0
             then [\<lparr>ftype = Warning, message = InvalidChangefreqValues\<rparr>]
             else []);
          priorityMatches = match_elements ''<priority>'' ''</priority>'' xmlContent;
          invalidPriority = length (filter (invalid_priority parseFloat) priorityMatches);
          priorities =
            (if invalidPriority > 0
             then [\<lparr>ftype = Warning, message = InvalidPriorityValue\<rparr>]
             else []);
          summary =
            (if hasNamespace \<and> hasUrlTags \<and> hasLocTags \<and> length locMatches > 0
             then [\<lparr>ftype = Info, message = ValidSitemapFormat\<rparr>]
             else [])
      in structure @ namespace @ elements @ limit @ locs @ freqs @ priorities @ summary)"

text \<open>
  The line test of both TXT validators:
  \<^verbatim>\<open>if (!/^https?:\/\//i.test(line) || /[\r\n]/.test(line)) invalid++;\<close>
\<close>

definition invalid_line :: "string \<Rightarrow> bool" where
  "invalid_line line = (\<not> is_http line \<or> has_newline line)"

text \<open>\<^verbatim>\<open>content.split(/\r?\n/).filter(Boolean)\<close>: the empty lines are dropped.\<close>

definition txt_lines :: "string \<Rightarrow> string list" where
  "txt_lines content = filter (\<lambda>l. l \<noteq> []) (split_lines content)"

text \<open>The counting loop \<^verbatim>\<open>for (const line of lines) if (...) invalid++\<close>.\<close>

fun count_invalid :: "string list \<Rightarrow> nat \<Rightarrow> nat" where
  "count_invalid [] invalid = invalid"
| "count_invalid (line # lines) invalid =
     count_invalid lines (if invalid_line line then invalid + 1 else invalid)"

text \<open>\<^verbatim>\<open>validateTxtSitemap(txtContent, { strict, maxUrls })\<close>, for generated sitemaps.\<close>

definition validateTxtSitemap :: "string \<Rightarrow> validate_options \<Rightarrow> finding list" where
  "validateTxtSitemap txtContent opts =
     (let policy = (if strict opts then Error else Warning);
          lines = txt_lines txtContent;
          urlCount = length lines;
          limit =
            (if urlCount > maxUrls opts
             then [\<lparr>ftype = policy, message = ExceedsUrlLimit urlCount (maxUrls opts)\<rparr>]
             else []);
          invalid = count_invalid lines 0;
          urls =
            (if invalid > 0 then [\<lparr>ftype = policy, message = ContainsInvalidUrls invalid\<rparr>]
             else [\<lparr>ftype = Info, message = ValidTxtFormat\<rparr>])
      in limit @ urls)"

text \<open>
  The part of the per-file result that \<^verbatim>\<open>validateTxtFileContent\<close> writes to, and
  \<^verbatim>\<open>validateTxtFileContent(content, result, { strict, maxUrls })\<close>, for external
  files, returning the result it updates.
\<close>

record file_result =
  errors :: "message list"
  warnings :: "message list"
  info :: "message list"

definition report :: "bool \<Rightarrow> message \<Rightarrow> file_result \<Rightarrow> file_result" where
  "report strictly msg result =
     (if strictly then result\<lparr>errors := errors result @ [msg]\<rparr>
      else result\<lparr>warnings := warnings result @ [msg]\<rparr>)"

definition validateTxtFileContent ::
  "string \<Rightarrow> file_result \<Rightarrow> validate_options \<Rightarrow> file_result" where
  "validateTxtFileContent content result opts =
     (let lines = txt_lines content;
          urlCount = length lines
      in if urlCount = 0 then result\<lparr>warnings := warnings result @ [NoUrlsFound]\<rparr>
         else
           (let result1 =
                  (if urlCount > maxUrls opts
                   then report (strict opts) (ExceedsUrlLimit urlCount (maxUrls opts)) result
                   else result\<lparr>info := info result @ [ContainsUrls urlCount]\<rparr>);
                invalidUrls = count_invalid lines 0
            in if invalidUrls > 0
               then report (strict opts) (ContainsInvalidUrls invalidUrls) result1
               else result1\<lparr>info := info result1 @ [ValidTxtFormat]\<rparr>))"

text \<open>
  The checks of \<^verbatim>\<open>validateXmlSitemap\<close> by the way their findings are typed: the
  findings of the structure, namespace, element and limit checks carry
  \<^verbatim>\<open>strict ? 'error' : 'warning'\<close>, those of the location, changefreq and priority
  checks carry the literal \<^verbatim>\<open>'warning'\<close>.
\<close>

fun policy_message :: "message \<Rightarrow> bool" where
  "policy_message InvalidXmlStructure = True"
| "policy_message MissingNamespace = True"
| "policy_message MissingUrlTags = True"
| "policy_message MissingLocTags = True"
| "policy_message (ExceedsUrlLimit n m) = True"
| "policy_message _ = False"

fun advisory_message :: "message \<Rightarrow> bool" where
  "advisory_message (ContainsInvalidUrls n) = True"
| "advisory_message InvalidChangefreqValues = True"
| "advisory_message InvalidPriorityValue = True"
| "advisory_message _ = False"

text \<open>
  Models of \<^verbatim>\<open>parseFloat\<close> and \<^verbatim>\<open>Number\<close> for the concrete inputs of this
  development. \<open>read_decimal\<close> reads the longest prefix that is a decimal literal
  (an optional sign, then \<^verbatim>\<open>Infinity\<close> or digits with an optional fraction and an
  optional exponent) and returns its value and the rest of the string; without a digit
  the value is \<^verbatim>\<open>NaN\<close>. The value is the exact decimal value, not rounded to a
  double. \<^verbatim>\<open>parseFloat\<close> skips leading white space and ignores the rest;
  \<^verbatim>\<open>Number\<close> trims the string, reads the empty string as 0 and the prefixes
  \<^verbatim>\<open>0x\<close>, \<^verbatim>\<open>0o\<close> and \<^verbatim>\<open>0b\<close> as hexadecimal, octal and binary, and gives
  \<^verbatim>\<open>NaN\<close> unless the literal is the whole string.
\<close>

definition digit_value :: "char \<Rightarrow> nat option" where
  "digit_value c = map_of (zip ''0123456789'' [0, 1, 2, 3, 4, 5, 6, 7, 8, 9]) c"

fun read_digits :: "string \<Rightarrow> nat list \<times> string" where
  "read_digits [] = ([], [])"
| "read_digits (c # cs) =
     (case digit_value c of None \<Rightarrow> ([], c # cs)
      | Some d \<Rightarrow> (case read_digits cs of (ds, rest) \<Rightarrow> (d # ds, rest)))"

definition digits_nat :: "nat list \<Rightarrow> nat" where
  "digits_nat ds = foldl (\<lambda>n d. 10 * n + d) 0 ds"

definition read_sign :: "string \<Rightarrow> bool \<times> string" where
  "read_sign s =
     (case s of [] \<Rightarrow> (False, s)
      | g # r \<Rightarrow> if g = CHR ''-'' then (True, r)
                 else if g = CHR ''+'' then (False, r) else (False, s))"

definition read_exponent :: "string \<Rightarrow> int \<times> string" where
  "read_exponent s =
     (case s of [] \<Rightarrow> (0, s)
      | e # r \<Rightarrow>
          if e = CHR ''e'' \<or> e = CHR ''E'' then
            (let (neg, r1) = read_sign r;
                 (ds, rest) = read_digits r1
             in if ds = [] then (0, s)
                else (if neg then - int (digits_nat ds) else int (digits_nat ds), rest))
          else (0, s))"

definition scale10 :: "rat \<Rightarrow> int \<Rightarrow> rat" where
  "scale10 q e = (if e < 0 then q / 10 ^ nat (- e) else q * 10 ^ nat e)"

definition read_decimal :: "string \<Rightarrow> number \<times> string" where
  "read_decimal s =
     (let (neg, s1) = read_sign s
      in if startsWith s1 ''Infinity''
         then (if neg then NegInfinity else PosInfinity, drop 8 s1)
         else
           (let (ip, s2) = read_digits s1;
                (fp, s3) =
                  (case s2 of [] \<Rightarrow> ([], s2)
                   | d # r \<Rightarrow> if d = CHR ''.'' then read_digits r else ([], s2))
            in if ip = [] \<and> fp = [] then (NaN, s)
               else
                 (let mantissa =
                        of_nat (digits_nat ip) + of_nat (digits_nat fp) / 10 ^ length fp;
                      (e, s4) = read_exponent s3;
                      v = scale10 mantissa e
                  in (Num (if neg then - v else v), s4))))"

definition parseFloat_decimal :: "string \<Rightarrow> number" where
  "parseFloat_decimal input = fst (read_decimal (dropWhile isWhiteSpace input))"

definition digit_in_base :: "nat \<Rightarrow> char \<Rightarrow> nat option" where
  "digit_in_base b c =
     (case map_of (zip ''0123456789abcdef'' [0, 1, 2, 3, 4, 5, 6, 7, 8, 9, 10, 11, 12, 13, 14, 15])
             (toLowerAscii c) of
        None \<Rightarrow> None
      | Some d \<Rightarrow> if d < b then Some d else None)"

definition radix_value :: "nat \<Rightarrow> string \<Rightarrow> number" where
  "radix_value b s =
     (if s \<noteq> [] \<and> (\<forall>c \<in> set s. digit_in_base b c \<noteq> None)
      then Num (of_nat (foldl (\<lambda>n c. b * n + the (digit_in_base b c)) 0 s))
      else NaN)"

definition model_Number :: "string \<Rightarrow> number" where
  "model_Number input =
     (let s = trim input
      in if s = [] then Num 0
         else if startsWith_ci s ''0x'' then radix_value 16 (drop 2 s)
         else if startsWith_ci s ''0o'' then radix_value 8 (drop 2 s)
         else if startsWith_ci s ''0b'' then radix_value 2 (drop 2 s)
         else (case read_decimal s of (v, rest) \<Rightarrow> if rest = [] then v else NaN))"

section \<open>URL collection (url-builder.js, utils.js)\<close>

subsection \<open>The runtime and the filesystem\<close>

text \<open>
  \<^verbatim>\<open>buildUrls\<close> reads the directory tree and calls functions of the runtime and of
  libraries: \<^verbatim>\<open>glob\<close>, \<^verbatim>\<open>fs\<close>, \<^verbatim>\<open>path\<close>, the HTML parser, \<^verbatim>\<open>git\<close>, the
  clock, \<^verbatim>\<open>URL\<close>, \<^verbatim>\<open>RegExp\<close>, \<^verbatim>\<open>localeCompare\<close> and \<^verbatim>\<open>Number\<close>. They are the
  fields of a record that every function of this section takes as its first argument.
  Where the original throws, the field returns \<open>None\<close>.
\<close>

record stat =
  isFile :: bool
  mtime_iso :: string

text \<open>
  What the program reads from a parsed document: the \<^verbatim>\<open>href\<close> attribute of the first
  \<^verbatim>\<open>link[rel="canonical"]\<close> (\<open>None\<close> without such an element or attribute) and the
  \<^verbatim>\<open>href\<close> attributes of the elements \<^verbatim>\<open>a[href]\<close> in document order.
\<close>

record html_doc =
  canonical_href :: "string option"
  anchor_hrefs :: "string list"

record world =
  glob_sync :: "string \<Rightarrow> string \<Rightarrow> string list \<Rightarrow> string list"
  statSync :: "string \<Rightarrow> stat option"
  existsSync :: "string \<Rightarrow> bool"
  readHtml :: "string \<Rightarrow> html_doc option"
  gitLastCommitISO :: "string \<Rightarrow> string option"
  now_iso :: "string \<Rightarrow> string"
  path_extname :: "string \<Rightarrow> string"
  path_join :: "string \<Rightarrow> string \<Rightarrow> string"
  path_relative :: "string \<Rightarrow> string \<Rightarrow> string"
  path_win32_relative :: "string \<Rightarrow> string \<Rightarrow> string"
  new_URL :: "string \<Rightarrow> string \<Rightarrow> string option"
  regexp_test :: "string \<Rightarrow> string \<Rightarrow> bool option"
  localeCompare :: "string \<Rightarrow> string \<Rightarrow> int"
  to_Number :: "string \<Rightarrow> number"
  url_pathname :: "string \<Rightarrow> string option"
  path_basename :: "string \<Rightarrow> string"
  writable :: "string \<Rightarrow> bool"

text \<open>
  \<^item> \<open>glob_sync w pattern cwd ignore\<close>: \<^verbatim>\<open>glob.sync(pattern, {cwd, ignore, nodir: true, dot: false, follow: false})\<close>;
  \<^item> \<open>statSync w p\<close>: \<^verbatim>\<open>fs.statSync(p)\<close>, its \<^verbatim>\<open>isFile()\<close> and its \<^verbatim>\<open>mtime\<close> as
    \<^verbatim>\<open>new Date(stat.mtime).toISOString()\<close>; \<open>None\<close> when it throws;
  \<^item> \<open>readHtml w p\<close>: \<^verbatim>\<open>parseHtml(fs.readFileSync(p, 'utf8'))\<close>; \<open>None\<close> when either throws;
  \<^item> \<open>gitLastCommitISO w p\<close>: \<^verbatim>\<open>getGitLastCommitISO(p)\<close> of utils.js, which runs
    \<^verbatim>\<open>git log\<close> and returns \<^verbatim>\<open>null\<close> on failure or empty output;
  \<^item> \<open>now_iso w f\<close>: \<^verbatim>\<open>new Date().toISOString()\<close> read while the file \<open>f\<close> is processed;
  \<^item> \<open>new_URL w rel base\<close>: \<^verbatim>\<open>new URL(rel, base).toString()\<close>; \<open>None\<close> for the
    \<^verbatim>\<open>TypeError\<close> of an invalid URL;
  \<^item> \<open>regexp_test w source s\<close>: \<^verbatim>\<open>new RegExp(source).test(s)\<close>; \<open>None\<close> for the
    \<^verbatim>\<open>SyntaxError\<close> of an invalid pattern;
  \<^item> \<open>localeCompare w a b\<close>: \<^verbatim>\<open>a.localeCompare(b)\<close>;
  \<^item> \<open>to_Number w s\<close>: \<^verbatim>\<open>Number(s)\<close>;
  \<^item> \<open>url_pathname w u\<close>: \<^verbatim>\<open>new URL(u).pathname\<close>; \<open>None\<close> for the \<^verbatim>\<open>TypeError\<close>;
  \<^item> \<open>writable w p\<close>: whether creating the directory of \<open>p\<close> and writing the file
    \<open>p\<close> succeed; the write throws otherwise.
\<close>

text \<open>
  \<^verbatim>\<open>getMaxDiscoveredLinks()\<close> and \<^verbatim>\<open>getMaxTotalUrls()\<close>: the result of \<^verbatim>\<open>parseInt\<close>
  on an environment variable or on the default, an integer or \<^verbatim>\<open>NaN\<close> (\<open>None\<close>).
\<close>

record limits =
  MAX_DISCOVERED_LINKS :: "int option"
  MAX_TOTAL_URLS :: "int option"

text \<open>\<^verbatim>\<open>n >= LIMIT\<close> for a length or counter \<open>n\<close>; false when the limit is \<^verbatim>\<open>NaN\<close>.\<close>

definition reached :: "nat \<Rightarrow> int option \<Rightarrow> bool" where
  "reached n lims = (case lims of None \<Rightarrow> False | Some k \<Rightarrow> int n \<ge> k)"

text \<open>The limits without a discovery cap: \<^verbatim>\<open>TEST_MAX_DISCOVERED_LINKS\<close> is no number.\<close>

abbreviation uncapped :: "limits \<Rightarrow> limits" where
  "uncapped lims \<equiv> lims\<lparr>MAX_DISCOVERED_LINKS := None\<rparr>"

datatype js_error = InvalidURL | InvalidRegExp

subsection \<open>Options and items\<close>

text \<open>
  The options that \<^verbatim>\<open>buildUrls\<close> reads, apart from the debug switches, which only
  add log lines. \<open>None\<close> is \<^verbatim>\<open>undefined\<close>.
\<close>

record options =
  baseUrl :: string
  publicDir :: string
  includePatterns :: "string list"
  excludePatterns :: "string list"
  excludeUrls :: "string list"
  lastmodStrategy :: string
  opt_changefreq :: "string option"
  opt_priority :: "string option"
  additionalUrls :: "string list"
  parseCanonical :: bool
  discoverLinks :: bool

text \<open>
  The priority of an item is a number where the walk converts the option with
  \<^verbatim>\<open>Number(priority)\<close>, and the option itself where a manual or discovered item
  copies it.
\<close>

datatype priority_value = PriorityNumber number | PriorityOption string

record item =
  url :: string
  lastmod :: "string option"
  changefreq :: "string option"
  priority :: "priority_value option"

text \<open>\<^verbatim>\<open>if (x)\<close> for a string or \<^verbatim>\<open>undefined\<close>: the empty string is falsy.\<close>

definition truthy :: "string option \<Rightarrow> bool" where
  "truthy x = (case x of None \<Rightarrow> False | Some s \<Rightarrow> s \<noteq> [])"

subsection \<open>utils.js: normalizeUrl and normalizePathToUrl\<close>

definition endsWith :: "string \<Rightarrow> string \<Rightarrow> bool" where
  "endsWith s p = startsWith (rev s) (rev p)"

text \<open>\<^verbatim>\<open>s.replace(/^\./, '')\<close>, \<^verbatim>\<open>s.replace(/^\//, '')\<close> and \<^verbatim>\<open>s.replace(/\\/g, '/')\<close>.\<close>

definition strip_leading :: "char \<Rightarrow> string \<Rightarrow> string" where
  "strip_leading c s = (case s of [] \<Rightarrow> [] | d # r \<Rightarrow> if d = c then r else s)"

definition slashes :: "string \<Rightarrow> string" where
  "slashes s = map (\<lambda>c. if c = CHR 0x5C then CHR ''/'' else c) s"

definition normalizeUrl :: "world \<Rightarrow> string \<Rightarrow> string \<Rightarrow> string option" where
  "normalizeUrl w base rel =
     (let base' = (if \<not> endsWith base ''/'' then base @ ''/'' else base)
      in new_URL w (strip_leading (CHR ''.'') rel) base')"

text \<open>\<^verbatim>\<open>/\\/.test(s)\<close> and \<^verbatim>\<open>/^[a-zA-Z]:\\/.test(s)\<close>.\<close>

definition has_backslash :: "string \<Rightarrow> bool" where
  "has_backslash s = (CHR 0x5C \<in> set s)"

definition is_ascii_letter :: "char \<Rightarrow> bool" where
  "is_ascii_letter c = (toLowerAscii c \<in> set ''abcdefghijklmnopqrstuvwxyz'')"

definition has_drive_prefix :: "string \<Rightarrow> bool" where
  "has_drive_prefix s =
     (case s of a # b # c # _ \<Rightarrow> is_ascii_letter a \<and> b = CHR '':'' \<and> c = CHR 0x5C | _ \<Rightarrow> False)"

definition normalizePathToUrl :: "world \<Rightarrow> string \<Rightarrow> string \<Rightarrow> string \<Rightarrow> string option" where
  "normalizePathToUrl w base pubDir fsPath =
     (let isWindowsLike =
            (has_backslash pubDir \<or> has_backslash fsPath
             \<or> has_drive_prefix pubDir \<or> has_drive_prefix fsPath);
          relRaw = (if isWindowsLike then path_win32_relative w pubDir fsPath
                    else path_relative w pubDir fsPath);
          rel = ''/'' @ slashes relRaw
      in normalizeUrl w base rel)"

subsection \<open>buildUrls: the walk\<close>

text \<open>\<^verbatim>\<open>ext.toLowerCase()\<close>, compared with ASCII literals only.\<close>

definition toLowerCase :: "string \<Rightarrow> string" where
  "toLowerCase s = map toLowerAscii s"

fun join_with :: "string \<Rightarrow> string list \<Rightarrow> string" where
  "join_with sep [] = []"
| "join_with sep [x] = x"
| "join_with sep (x # y # ys) = x @ sep @ join_with sep (y # ys)"

text \<open>The first argument of \<^verbatim>\<open>glob.sync\<close>.\<close>

definition glob_pattern :: "string list \<Rightarrow> string" where
  "glob_pattern incl =
     (let patterns = (if incl \<noteq> [] then incl else [''**/*''])
      in if length patterns > 1 then ''{'' @ join_with '','' patterns @ ''}'' else patterns ! 0)"

text \<open>
  The loop over the anchors of one document. \<open>ds\<close> is \<^verbatim>\<open>discoveredSet\<close>, a set that
  keeps the order of insertion. The loop ends at the cap (\<^verbatim>\<open>break\<close>), at the end of
  the anchors, or with an exception (\<^verbatim>\<open>fs.statSync\<close> on a path that has vanished, or
  \<^verbatim>\<open>new URL\<close>), which the enclosing \<^verbatim>\<open>catch\<close> swallows; in each case the set built
  so far stays.
\<close>

fun discover_anchors :: "world \<Rightarrow> limits \<Rightarrow> options \<Rightarrow> string list \<Rightarrow> string list \<Rightarrow> string list" where
  "discover_anchors w lims opts [] ds = ds"
| "discover_anchors w lims opts (hrefA # anchors) ds =
     (if reached (length ds) (MAX_DISCOVERED_LINKS lims) then ds
      else if hrefA = [] then discover_anchors w lims opts anchors ds
      else if is_http hrefA then discover_anchors w lims opts anchors ds
      else if startsWith hrefA ''#'' then discover_anchors w lims opts anchors ds
      else
        (let targetFs = path_join w (publicDir opts) (strip_leading (CHR ''/'') hrefA)
         in if existsSync w targetFs
            then (case statSync w targetFs of
                    None \<Rightarrow> ds
                  | Some st \<Rightarrow>
                      if isFile st
                      then (case normalizePathToUrl w (baseUrl opts) (publicDir opts) targetFs of
                              None \<Rightarrow> ds
                            | Some targetUrl \<Rightarrow>
                                discover_anchors w lims opts anchors
                                  (if targetUrl \<notin> set ds then ds @ [targetUrl] else ds))
                      else discover_anchors w lims opts anchors ds)
            else discover_anchors w lims opts anchors ds))"

text \<open>
  The inner \<^verbatim>\<open>try\<close> block for one HTML file: the canonical URL, then the anchors.
  The result is the URL of the item and the discovery set. An exception before the
  assignment \<^verbatim>\<open>item.url = candidate\<close> leaves both as they were.
\<close>

definition parse_html_file ::
  "world \<Rightarrow> limits \<Rightarrow> options \<Rightarrow> string \<Rightarrow> string \<Rightarrow> string list \<Rightarrow> string \<times> string list" where
  "parse_html_file w lims opts fullFsPath fullUrl ds =
     (case readHtml w fullFsPath of
        None \<Rightarrow> (fullUrl, ds)
      | Some doc \<Rightarrow>
          (let href = canonical_href doc;
               canonical =
                 (if truthy href
                  then (if is_http (the href) then Some (the href)
                        else normalizePathToUrl w (baseUrl opts) (publicDir opts)
                               (path_join w (publicDir opts) (strip_leading (CHR ''/'') (the href))))
                  else Some fullUrl)
           in case canonical of
                None \<Rightarrow> (fullUrl, ds)
              | Some u \<Rightarrow>
                  (u, if discoverLinks opts
                      then discover_anchors w lims opts (anchor_hrefs doc) ds
                      else ds)))"

text \<open>The \<^verbatim>\<open>lastmod\<close> of a walked item, after a successful \<^verbatim>\<open>fs.statSync\<close>.\<close>

definition walked_lastmod :: "world \<Rightarrow> options \<Rightarrow> stat \<Rightarrow> string \<Rightarrow> string \<Rightarrow> string option" where
  "walked_lastmod w opts st fullFsPath f =
     (if lastmodStrategy opts = ''filemtime'' then Some (mtime_iso st)
      else if lastmodStrategy opts = ''git''
      then (if truthy (gitLastCommitISO w fullFsPath) then gitLastCommitISO w fullFsPath
            else Some (mtime_iso st))
      else if lastmodStrategy opts = ''current'' then Some (now_iso w f)
      else None)"

definition skipExts :: "string list" where
  "skipExts = [''.map'']"

text \<open>
  One iteration of \<^verbatim>\<open>for (const f of files)\<close> on the pair of \<^verbatim>\<open>items\<close> and
  \<^verbatim>\<open>discoveredSet\<close>. The call of \<^verbatim>\<open>normalizeUrl\<close> before the \<^verbatim>\<open>try\<close> is the only
  place where an exception leaves the loop.
\<close>

definition walk_file ::
  "world \<Rightarrow> limits \<Rightarrow> options \<Rightarrow> string \<Rightarrow> item list \<times> string list \<Rightarrow> js_error + item list \<times> string list" where
  "walk_file w lims opts f state =
     (let (items, ds) = state;
          ext = toLowerCase (path_extname w f)
      in if ext \<in> set skipExts then Inr (items, ds)
         else
           (let urlPath = ''/'' @ slashes f
            in case normalizeUrl w (baseUrl opts) urlPath of
                 None \<Rightarrow> Inl InvalidURL
               | Some fullUrl \<Rightarrow>
                   (let fullFsPath = path_join w (publicDir opts) f;
                        (u, lm, ds') =
                          (case statSync w fullFsPath of
                             None \<Rightarrow> (fullUrl, None, ds)
                           | Some st \<Rightarrow>
                               (let (u, ds') =
                                      (if parseCanonical opts \<and> ext \<in> set [''.html'', ''.htm'']
                                       then parse_html_file w lims opts fullFsPath fullUrl ds
                                       else (fullUrl, ds))
                                in (u, walked_lastmod w opts st fullFsPath f, ds')));
                        item = \<lparr>url = u, lastmod = lm,
                                changefreq = (if truthy (opt_changefreq opts) then opt_changefreq opts else None),
                                priority = (if truthy (opt_priority opts)
                                            then Some (PriorityNumber (to_Number w (the (opt_priority opts))))
                                            else None)\<rparr>
                    in Inr (items @ [item], ds'))))"

fun walk_files ::
  "world \<Rightarrow> limits \<Rightarrow> options \<Rightarrow> string list \<Rightarrow> item list \<times> string list \<Rightarrow> js_error + item list \<times> string list" where
  "walk_files w lims opts [] state = Inr state"
| "walk_files w lims opts (f # files) state =
     (case walk_file w lims opts f state of
        Inl e \<Rightarrow> Inl e
      | Inr state' \<Rightarrow> walk_files w lims opts files state')"

subsection \<open>buildUrls: merging, deduplication, exclusion, sorting\<close>

text \<open>\<^verbatim>\<open>{ url: u, changefreq, priority }\<close>, the item of a manual or discovered URL.\<close>

definition extra_item :: "options \<Rightarrow> string \<Rightarrow> item" where
  "extra_item opts u =
     \<lparr>url = u, lastmod = None, changefreq = opt_changefreq opts,
      priority = map_option PriorityOption (opt_priority opts)\<rparr>"

definition add_manual :: "options \<Rightarrow> item list \<Rightarrow> item list" where
  "add_manual opts items =
     (if additionalUrls opts \<noteq> [] then items @ map (extra_item opts) (additionalUrls opts)
      else items)"

text \<open>
  The loop \<^verbatim>\<open>for (const u of discoveredSet)\<close>; \<open>added\<close> is
  \<^verbatim>\<open>addedFromDiscovered\<close>.
\<close>

fun merge_loop :: "limits \<Rightarrow> options \<Rightarrow> string list \<Rightarrow> nat \<Rightarrow> item list \<Rightarrow> item list" where
  "merge_loop lims opts [] added items = items"
| "merge_loop lims opts (u # us) added items =
     (if reached (length items) (MAX_TOTAL_URLS lims) then items
      else if reached added (MAX_DISCOVERED_LINKS lims) then items
      else if \<not> (\<exists>it \<in> set items. url it = u)
      then merge_loop lims opts us (added + 1) (items @ [extra_item opts u])
      else merge_loop lims opts us added items)"

definition merge_discovered :: "limits \<Rightarrow> options \<Rightarrow> string list \<Rightarrow> item list \<Rightarrow> item list" where
  "merge_discovered lims opts ds items =
     (if discoverLinks opts \<and> ds \<noteq> [] then merge_loop lims opts ds 0 items else items)"

text \<open>"Remove duplicates by URL": \<open>seen\<close> is \<^verbatim>\<open>seenUrls\<close>, \<open>unique\<close> is \<^verbatim>\<open>uniqueItems\<close>.\<close>

fun dedupe_loop :: "item list \<Rightarrow> string set \<Rightarrow> item list \<Rightarrow> item list" where
  "dedupe_loop [] seen unique = unique"
| "dedupe_loop (it # items) seen unique =
     (if url it \<notin> seen then dedupe_loop items (insert (url it) seen) (unique @ [it])
      else dedupe_loop items seen unique)"

definition remove_duplicates :: "item list \<Rightarrow> item list" where
  "remove_duplicates items = dedupe_loop items {} []"

text \<open>
  "Filter out excluded URLs". \<^verbatim>\<open>excludeUrl.replace(/\*/g, '.*').replace(/\?/g, '.')\<close>
  is \<open>wildcards_to_regex\<close>; \<open>keep_item\<close> is the callback of \<^verbatim>\<open>filter\<close>, which
  returns \<^verbatim>\<open>false\<close> at the first entry that excludes the URL.
\<close>

definition wildcards_to_regex :: "string \<Rightarrow> string" where
  "wildcards_to_regex e =
     concat (map (\<lambda>c. if c = CHR ''*'' then ''.*'' else if c = CHR ''?'' then ''.'' else [c]) e)"

fun keep_item :: "world \<Rightarrow> string list \<Rightarrow> string \<Rightarrow> js_error + bool" where
  "keep_item w [] u = Inr True"
| "keep_item w (excludeUrl # rest) u =
     (if u = excludeUrl then Inr False
      else if CHR ''*'' \<in> set excludeUrl \<or> CHR ''?'' \<in> set excludeUrl
      then (case regexp_test w (''^'' @ wildcards_to_regex excludeUrl @ ''$'') u of
              None \<Rightarrow> Inl InvalidRegExp
            | Some True \<Rightarrow> Inr False
            | Some False \<Rightarrow> keep_item w rest u)
      else keep_item w rest u)"

fun filter_items :: "world \<Rightarrow> string list \<Rightarrow> item list \<Rightarrow> js_error + item list" where
  "filter_items w excl [] = Inr []"
| "filter_items w excl (it # items) =
     (case keep_item w excl (url it) of
        Inl e \<Rightarrow> Inl e
      | Inr keep \<Rightarrow>
          (case filter_items w excl items of
             Inl e \<Rightarrow> Inl e
           | Inr kept \<Rightarrow> Inr (if keep then it # kept else kept)))"

definition filter_excluded :: "world \<Rightarrow> options \<Rightarrow> item list \<Rightarrow> js_error + item list" where
  "filter_excluded w opts uniqueItems =
     (if length (excludeUrls opts) > 0 then filter_items w (excludeUrls opts) uniqueItems
      else Inr uniqueItems)"

text \<open>
  \<^verbatim>\<open>filteredItems.sort((a, b) => a.url.localeCompare(b.url))\<close>.
  \<^verbatim>\<open>Array.prototype.sort\<close> is stable, and for a consistent comparator its result is
  the one stable sorted arrangement, which insertion from the right computes: an item
  goes in front of the first item that does not compare below it.
\<close>

fun insert_sorted :: "('a \<Rightarrow> 'a \<Rightarrow> int) \<Rightarrow> 'a \<Rightarrow> 'a list \<Rightarrow> 'a list" where
  "insert_sorted cmp x [] = [x]"
| "insert_sorted cmp x (y # ys) =
     (if cmp x y \<le> 0 then x # y # ys else y # insert_sorted cmp x ys)"

fun sort_with :: "('a \<Rightarrow> 'a \<Rightarrow> int) \<Rightarrow> 'a list \<Rightarrow> 'a list" where
  "sort_with cmp [] = []"
| "sort_with cmp (x # xs) = insert_sorted cmp x (sort_with cmp xs)"

definition sort_items :: "world \<Rightarrow> item list \<Rightarrow> item list" where
  "sort_items w items = sort_with (\<lambda>a b. localeCompare w (url a) (url b)) items"

text \<open>\<^verbatim>\<open>buildUrls(options, core)\<close>; the log lines are left out.\<close>

definition buildUrls :: "world \<Rightarrow> limits \<Rightarrow> options \<Rightarrow> js_error + item list" where
  "buildUrls w lims opts =
     (let files = glob_sync w (glob_pattern (includePatterns opts)) (publicDir opts)
                    (excludePatterns opts)
      in case walk_files w lims opts files ([], []) of
           Inl e \<Rightarrow> Inl e
         | Inr (walked, discoveredSet) \<Rightarrow>
             (let items = merge_discovered lims opts discoveredSet (add_manual opts walked);
                  uniqueItems = remove_duplicates items
              in case filter_excluded w opts uniqueItems of
                   Inl e \<Rightarrow> Inl e
                 | Inr filteredItems \<Rightarrow> Inr (sort_items w filteredItems)))"

text \<open>
  Deduplication as the specification words it: the first occurrence of a URL in merge
  order stays, every later item with the same URL is dropped.
\<close>

function first_occurrences :: "item list \<Rightarrow> item list" where
  "first_occurrences [] = []"
| "first_occurrences (x # xs) = x # first_occurrences (filter (\<lambda>y. url y \<noteq> url x) xs)"
  by pat_completeness auto
termination
  by (relation "measure length") (auto simp: le_imp_less_Suc)

section \<open>Models of the runtime for the sample sites\<close>

text \<open>
  The theorems that hold for every \<open>world\<close> do not depend on this section. The sample
  sites below need concrete functions; each model covers the fragment of the library
  function that its comment names, on which it follows the library's documented
  behaviour.
\<close>

subsection \<open>POSIX paths\<close>

text \<open>\<^verbatim>\<open>s.split(c)\<close> for a single character.\<close>

fun split_on :: "char \<Rightarrow> string \<Rightarrow> string list" where
  "split_on c [] = [[]]"
| "split_on c (d # ds) =
     (if d = c then [] # split_on c ds
      else (case split_on c ds of [] \<Rightarrow> [[d]] | x # xs \<Rightarrow> (d # x) # xs))"

text \<open>
  The segment loop of \<^verbatim>\<open>path.posix.normalize\<close>: empty segments and \<^verbatim>\<open>.\<close> vanish,
  \<^verbatim>\<open>..\<close> removes the segment before it, or stays where nothing is left to remove and
  the path is relative (\<open>aboveRoot\<close>).
\<close>

fun normalize_segments :: "bool \<Rightarrow> string list \<Rightarrow> string list \<Rightarrow> string list" where
  "normalize_segments aboveRoot [] acc = acc"
| "normalize_segments aboveRoot (s # ss) acc =
     (if s = [] \<or> s = ''.'' then normalize_segments aboveRoot ss acc
      else if s = ''..''
      then (if acc \<noteq> [] \<and> last acc \<noteq> ''..'' then normalize_segments aboveRoot ss (butlast acc)
            else if aboveRoot then normalize_segments aboveRoot ss (acc @ [''..''])
            else normalize_segments aboveRoot ss acc)
      else normalize_segments aboveRoot ss (acc @ [s]))"

definition posix_normalize :: "string \<Rightarrow> string" where
  "posix_normalize p =
     (if p = [] then ''.''
      else
        (let isAbsolute = (hd p = CHR ''/'');
             trailing = (last p = CHR ''/'');
             body = join_with ''/'' (normalize_segments (\<not> isAbsolute) (split_on (CHR ''/'') p) []);
             body' = (if body = [] then (if isAbsolute then [] else if trailing then ''./'' else ''.'')
                      else if trailing then body @ ''/'' else body)
         in if isAbsolute then ''/'' @ body' else body'))"

text \<open>\<^verbatim>\<open>path.posix.join(a, b)\<close>\<close>

definition posix_join :: "string \<Rightarrow> string \<Rightarrow> string" where
  "posix_join a b =
     (let parts = filter (\<lambda>s. s \<noteq> []) [a, b]
      in if parts = [] then ''.'' else posix_normalize (join_with ''/'' parts))"

text \<open>
  \<^verbatim>\<open>path.posix.resolve(p)\<close> as the list of its segments, for a process whose working
  directory is \<open>cwd\<close>, and \<^verbatim>\<open>path.posix.relative(from, to)\<close>: the segments after the
  common prefix, with one \<^verbatim>\<open>..\<close> for each segment left of \<open>from\<close>.
\<close>

definition posix_resolve :: "string \<Rightarrow> string \<Rightarrow> string list" where
  "posix_resolve cwd p =
     normalize_segments False
       (split_on (CHR ''/'') (if p \<noteq> [] \<and> hd p = CHR ''/'' then p else cwd @ ''/'' @ p)) []"

fun drop_common :: "string list \<Rightarrow> string list \<Rightarrow> string list \<times> string list" where
  "drop_common (x # xs) (y # ys) = (if x = y then drop_common xs ys else (x # xs, y # ys))"
| "drop_common xs ys = (xs, ys)"

definition posix_relative :: "string \<Rightarrow> string \<Rightarrow> string \<Rightarrow> string" where
  "posix_relative cwd from to =
     (case drop_common (posix_resolve cwd from) (posix_resolve cwd to) of
        (fs, ts) \<Rightarrow> join_with ''/'' (replicate (length fs) ''..'' @ ts))"

text \<open>
  \<^verbatim>\<open>path.posix.extname(p)\<close> for a path that does not end in a slash: from the last
  dot of the last segment, unless that segment has no dot, only a leading dot, or is
  \<^verbatim>\<open>..\<close>.
\<close>

definition posix_extname :: "string \<Rightarrow> string" where
  "posix_extname p =
     (let base = last (split_on (CHR ''/'') p);
          after = rev (takeWhile (\<lambda>c. c \<noteq> CHR ''.'') (rev base))
      in if CHR ''.'' \<notin> set base \<or> base = ''..'' \<or> length after + 1 = length base then []
         else ''.'' @ after)"

text \<open>\<^verbatim>\<open>path.posix.basename(p)\<close>: the last segment, trailing slashes aside.\<close>

definition posix_basename :: "string \<Rightarrow> string" where
  "posix_basename p =
     (let q = rev (dropWhile (\<lambda>c. c = CHR ''/'') (rev p))
      in rev (takeWhile (\<lambda>c. c \<noteq> CHR ''/'') (rev q)))"

subsection \<open>URL\<close>

text \<open>
  \<^verbatim>\<open>new URL(rel, base).toString()\<close> for an \<^verbatim>\<open>http(s)\<close> base with a plain host name
  and a reference that is an absolute path of unreserved characters without dot
  segments: scheme and host of the base in lower case, followed by the reference.
  Outside this fragment the model answers \<open>None\<close>.
\<close>

definition unreserved :: "char \<Rightarrow> bool" where
  "unreserved c = (toLowerAscii c \<in> set ''abcdefghijklmnopqrstuvwxyz0123456789-._~'')"

definition plain_path :: "string \<Rightarrow> bool" where
  "plain_path rel =
     (case rel of
        [] \<Rightarrow> False
      | c # r \<Rightarrow> c = CHR ''/'' \<and> (\<forall>d \<in> set r. unreserved d \<or> d = CHR ''/'')
                  \<and> (r = [] \<or> hd r \<noteq> CHR ''/'')
                  \<and> (\<forall>s \<in> set (split_on (CHR ''/'') r). s \<noteq> ''.'' \<and> s \<noteq> ''..''))"

definition model_new_URL :: "string \<Rightarrow> string \<Rightarrow> string option" where
  "model_new_URL rel base =
     (let scheme = (if startsWith_ci base ''https://'' then ''https://''
                    else if startsWith_ci base ''http://'' then ''http://'' else []);
          rest = drop (length scheme) base;
          host = takeWhile (\<lambda>c. c \<noteq> CHR ''/'') rest
      in if scheme = [] \<or> host = []
            \<or> \<not> (\<forall>c \<in> set host. unreserved c \<and> c \<noteq> CHR ''_'' \<and> c \<noteq> CHR ''~'')
            \<or> \<not> plain_path rel
         then None
         else Some (scheme @ map toLowerAscii host @ rel))"

text \<open>
  \<^verbatim>\<open>new URL(u).pathname\<close> for an \<^verbatim>\<open>http(s)\<close> URL with a plain host name and a plain
  path: the text after the host, or \<^verbatim>\<open>/\<close> if there is none.
\<close>

definition model_url_pathname :: "string \<Rightarrow> string option" where
  "model_url_pathname u =
     (let scheme = (if startsWith_ci u ''https://'' then ''https://''
                    else if startsWith_ci u ''http://'' then ''http://'' else []);
          rest = drop (length scheme) u;
          host = takeWhile (\<lambda>c. c \<noteq> CHR ''/'') rest;
          path = dropWhile (\<lambda>c. c \<noteq> CHR ''/'') rest
      in if scheme = [] \<or> host = []
            \<or> \<not> (\<forall>c \<in> set host. unreserved c \<and> c \<noteq> CHR ''_'' \<and> c \<noteq> CHR ''~'')
            \<or> \<not> (path = [] \<or> plain_path path)
         then None
         else Some (if path = [] then ''/'' else path))"

subsection \<open>RegExp\<close>

text \<open>
  \<^verbatim>\<open>new RegExp(source).test(s)\<close> for a source of the form \<^verbatim>\<open>^...$\<close> whose body is a
  sequence of ordinary characters and \<^verbatim>\<open>.\<close>, each optionally followed by \<^verbatim>\<open>*\<close>.
  \<^verbatim>\<open>.\<close> matches any character but a line terminator. Outside this fragment the
  model answers \<open>None\<close>.
\<close>

datatype atom = AnyChar | Literal char

datatype piece = Once atom | Star atom

definition regexp_special :: "char \<Rightarrow> bool" where
  "regexp_special c = (c \<in> set ''^$*+?()[]{}|'' \<or> c = CHR 0x5C)"

fun parse_pieces :: "string \<Rightarrow> piece list option" where
  "parse_pieces [] = Some []"
| "parse_pieces (c # cs) =
     (if regexp_special c then None
      else
        (let a = (if c = CHR ''.'' then AnyChar else Literal c)
         in case cs of
              [] \<Rightarrow> Some [Once a]
            | d # ds \<Rightarrow>
                if d = CHR ''*'' then map_option (\<lambda>ps. Star a # ps) (parse_pieces ds)
                else map_option (\<lambda>ps. Once a # ps) (parse_pieces cs)))"

fun match_atom :: "atom \<Rightarrow> char \<Rightarrow> bool" where
  "match_atom AnyChar c = (\<not> isLineTerminator c)"
| "match_atom (Literal d) c = (c = d)"

fun match_pieces :: "piece list \<Rightarrow> string \<Rightarrow> bool" where
  "match_pieces [] s = (s = [])"
| "match_pieces (Once a # ps) [] = False"
| "match_pieces (Once a # ps) (c # cs) = (match_atom a c \<and> match_pieces ps cs)"
| "match_pieces (Star a # ps) [] = match_pieces ps []"
| "match_pieces (Star a # ps) (c # cs) =
     (match_pieces ps (c # cs) \<or> (match_atom a c \<and> match_pieces (Star a # ps) cs))"

definition model_regexp_test :: "string \<Rightarrow> string \<Rightarrow> bool option" where
  "model_regexp_test source s =
     (case source of
        [] \<Rightarrow> None
      | c # r \<Rightarrow>
          if c = CHR ''^'' \<and> r \<noteq> [] \<and> last r = CHR ''$''
          then map_option (\<lambda>ps. match_pieces ps s) (parse_pieces (butlast r))
          else None)"

subsection \<open>localeCompare\<close>

text \<open>
  \<^verbatim>\<open>a.localeCompare(b)\<close> in the default collation, for strings that differ in ASCII
  letters: the letters are compared without regard to case first, and two strings
  that are equal up to case are ordered with the lower-case letter first. \<open><\<close> on
  strings is the order by code units, the one of JavaScript's \<^verbatim>\<open><\<close>.
\<close>

definition model_localeCompare :: "string \<Rightarrow> string \<Rightarrow> int" where
  "model_localeCompare a b =
     (let la = map toLowerAscii a; lb = map toLowerAscii b
      in if la < lb then - 1 else if lb < la then 1
         else if a = b then 0 else if b < a then - 1 else 1)"

subsection \<open>A site\<close>

text \<open>
  The world of a site in the directory \<open>dir\<close>, working directory \<^verbatim>\<open>/\<close>, whose
  regular files are the relative paths of \<open>pages\<close>, each with what the HTML parser
  finds in it. \<^verbatim>\<open>glob.sync\<close> returns the paths \<open>found\<close>: the files that match the
  include patterns and no exclude pattern. No path has a
  backslash, so \<^verbatim>\<open>path.win32.relative\<close> is never applied and is given as the POSIX
  function. Every write succeeds. \<^verbatim>\<open>Number\<close> is \<open>model_Number\<close>.
\<close>

definition site :: "string \<Rightarrow> string list \<Rightarrow> (string \<times> html_doc) list \<Rightarrow> world" where
  "site dir found pages =
     \<lparr>glob_sync = (\<lambda>pattern cwd ignore. found),
      statSync = (\<lambda>p. if p \<in> set (map (\<lambda>(f, d). posix_join dir f) pages)
                       then Some \<lparr>isFile = True, mtime_iso = ''2025-01-01T00:00:00.000Z''\<rparr>
                       else if p = dir
                       then Some \<lparr>isFile = False, mtime_iso = ''2025-01-01T00:00:00.000Z''\<rparr>
                       else None),
      existsSync = (\<lambda>p. p \<in> set (map (\<lambda>(f, d). posix_join dir f) pages) \<or> p = dir),
      readHtml = (\<lambda>p. map_of (map (\<lambda>(f, d). (posix_join dir f, d)) pages) p),
      gitLastCommitISO = (\<lambda>p. None),
      now_iso = (\<lambda>f. ''2025-01-02T00:00:00.000Z''),
      path_extname = posix_extname,
      path_join = posix_join,
      path_relative = posix_relative ''/'',
      path_win32_relative = posix_relative ''/'',
      new_URL = model_new_URL,
      regexp_test = model_regexp_test,
      localeCompare = model_localeCompare,
      to_Number = model_Number,
      url_pathname = model_url_pathname,
      path_basename = posix_basename,
      writable = (\<lambda>p. True)\<rparr>"

definition plain_page :: html_doc where
  "plain_page = \<lparr>canonical_href = None, anchor_hrefs = []\<rparr>"

definition default_limits :: limits where
  "default_limits = \<lparr>MAX_DISCOVERED_LINKS = Some 10000, MAX_TOTAL_URLS = Some 100000\<rparr>"

text \<open>
  The options of a run with the defaults of the action: base \<^verbatim>\<open>https://example.com\<close>,
  public directory \<^verbatim>\<open>/site\<close>, the default include, exclude and exclude-URL patterns,
  no changefreq and no priority, lastmod strategy \<^verbatim>\<open>none\<close>, canonical parsing and
  link discovery enabled.
\<close>

definition default_options :: options where
  "default_options =
     \<lparr>baseUrl = ''https://example.com'', publicDir = ''/site'',
      includePatterns = [''**/*.html'', ''**/*.htm''], excludePatterns = [''**/*.map''],
      excludeUrls = [''*/sitemap*.xml'', ''*/sitemap*.txt'', ''*/sitemap*.xml.gz''],
      lastmodStrategy = ''none'', opt_changefreq = None, opt_priority = None,
      additionalUrls = [], parseCanonical = True, discoverLinks = True\<rparr>"

section \<open>The specification's words, for comparison with the code\<close>

text \<open>
  The exclusion patterns as the specification describes them: \<^verbatim>\<open>*\<close> stands for zero
  or more characters, \<^verbatim>\<open>?\<close> for exactly one character, every other character for
  itself, and the pattern has to cover the whole URL.
\<close>

fun glob_match :: "string \<Rightarrow> string \<Rightarrow> bool" where
  "glob_match [] s = (s = [])"
| "glob_match (p # ps) [] = (p = CHR ''*'' \<and> glob_match ps [])"
| "glob_match (p # ps) (c # cs) =
     (if p = CHR ''*'' then glob_match ps (c # cs) \<or> glob_match (p # ps) cs
      else (p = CHR ''?'' \<or> p = c) \<and> glob_match ps cs)"

definition spec_excluded :: "string list \<Rightarrow> string \<Rightarrow> bool" where
  "spec_excluded entries u =
     (\<exists>e \<in> set entries. u = e \<or> ((CHR ''*'' \<in> set e \<or> CHR ''?'' \<in> set e) \<and> glob_match e u))"

text \<open>
  The URL of a relative canonical \<open>href\<close> as the specification describes it: resolved
  against the directory that contains the file \<open>f\<close>, then turned from a filesystem
  path into a URL. \<open>dirname\<close> is \<^verbatim>\<open>path.dirname\<close>.
\<close>

definition spec_canonical_url ::
  "world \<Rightarrow> (string \<Rightarrow> string) \<Rightarrow> options \<Rightarrow> string \<Rightarrow> string \<Rightarrow> string option" where
  "spec_canonical_url w dirname opts f href =
     normalizePathToUrl w (baseUrl opts) (publicDir opts)
       (path_join w (dirname (path_join w (publicDir opts) f)) href)"

text \<open>\<^verbatim>\<open>path.posix.dirname(p)\<close> for a path with a slash that is not its last character.\<close>

definition posix_dirname :: "string \<Rightarrow> string" where
  "posix_dirname p =
     (let d = rev (tl (dropWhile (\<lambda>c. c \<noteq> CHR ''/'') (rev p)))
      in if d = [] then ''/'' else d)"

text \<open>
  A comparator is consistent when "not above" is transitive and any two values are
  comparable: the condition under which \<^verbatim>\<open>Array.prototype.sort\<close> has a defined
  result.
\<close>

definition consistent_comparator :: "('a \<Rightarrow> 'a \<Rightarrow> int) \<Rightarrow> bool" where
  "consistent_comparator cmp \<longleftrightarrow>
     (\<forall>a b c. cmp a b \<le> 0 \<and> cmp b c \<le> 0 \<longrightarrow> cmp a c \<le> 0) \<and> (\<forall>a b. 0 < cmp a b \<longrightarrow> cmp b a \<le> 0)"

text \<open>
  The discovered links that the merge appends, stated apart from the loop: the URLs of
  the discovery set that are not yet the URL of an item, in the order of the set, as
  many as the two caps admit. \<open>allowance cap used n\<close> is how many of \<open>n\<close> further
  items a cap admits when \<open>used\<close> items count against it already; a cap that is
  \<^verbatim>\<open>NaN\<close> admits all.
\<close>

definition allowance :: "int option \<Rightarrow> nat \<Rightarrow> nat \<Rightarrow> nat" where
  "allowance cap used n = (case cap of None \<Rightarrow> n | Some c \<Rightarrow> min n (nat (c - int used)))"

definition new_links :: "item list \<Rightarrow> string list \<Rightarrow> string list" where
  "new_links items ds = filter (\<lambda>u. u \<notin> set (map url items)) ds"

definition merged_links :: "limits \<Rightarrow> item list \<Rightarrow> string list \<Rightarrow> string list" where
  "merged_links lims items ds =
     take (allowance (MAX_TOTAL_URLS lims) (length items)
             (allowance (MAX_DISCOVERED_LINKS lims) 0 (length (new_links items ds))))
       (new_links items ds)"

section \<open>The run (index.js)\<close>

subsection \<open>Inputs\<close>

text \<open>
  What a run reads besides the filesystem: the inputs of the action
  (\<^verbatim>\<open>core.getInput\<close>, the empty string for an input that is not set), the environment
  (\<^verbatim>\<open>process.env\<close>, the empty string likewise), \<^verbatim>\<open>parseFloat\<close>, the per-file limit
  \<^verbatim>\<open>getMaxUrlsPerSitemap()\<close> (an integer or \<^verbatim>\<open>NaN\<close>), and the results of the two
  autodetection helpers of utils.js, \<^verbatim>\<open>findPublicDir\<close> and \<^verbatim>\<open>inferSiteUrl\<close>, which
  only read the filesystem and the environment; their \<^verbatim>\<open>null\<close> is the empty string.
\<close>

record action =
  getInput :: "string \<Rightarrow> string"
  getEnv :: "string \<Rightarrow> string"
  parseFloat :: "string \<Rightarrow> number"
  MAX_URLS_PER_SITEMAP :: "int option"
  findPublicDir :: "string \<Rightarrow> string"
  inferSiteUrl :: "string \<Rightarrow> string"

text \<open>\<^verbatim>\<open>a || b\<close> on strings, \<^verbatim>\<open>/^true$/i.test(s)\<close>, and the list inputs.\<close>

definition or_else :: "string \<Rightarrow> string \<Rightarrow> string" where
  "or_else a b = (if a = [] then b else a)"

definition is_true :: "string \<Rightarrow> bool" where
  "is_true s = (map toLowerAscii s = ''true'')"

definition input_list :: "string \<Rightarrow> string list" where
  "input_list s = filter (\<lambda>x. x \<noteq> []) (map trim (split_on (CHR '','') s))"

definition resolveBooleanInput :: "action \<Rightarrow> string \<Rightarrow> string \<Rightarrow> string \<Rightarrow> bool" where
  "resolveBooleanInput a primary legacy def =
     is_true (or_else (getInput a primary) (or_else (getInput a legacy) def))"

definition extension_list :: "string \<Rightarrow> string list" where
  "extension_list s =
     map (\<lambda>ext. if startsWith ext ''.'' then ext else ''.'' @ ext)
       (filter (\<lambda>x. x \<noteq> []) (map (\<lambda>x. toLowerCase (trim x)) (split_on (CHR '','') s)))"

subsection \<open>Effects\<close>

text \<open>
  A written file is its path and what it is rendered from; the rendering itself (the
  \<^verbatim>\<open>sitemap\<close> library, the pretty printer, \<^verbatim>\<open>zlib\<close>) is not modelled. A run reports
  its failures with \<^verbatim>\<open>core.setFailed\<close>.
\<close>

datatype rendering =
    SitemapXml "item list"
  | SitemapTxt "item list"
  | SitemapIndex "string list"
  | CorruptedIndex "string list"
  | Gzip rendering

record file_write =
  written_path :: string
  rendered :: rendering

datatype failure =
    MissingSiteUrl
  | MissingPublicDir
  | InvalidPriority string
  | InvalidAdditionalUrls nat
  | SiteUrlScheme
  | PublicDirNotFound string
  | Thrown js_error
  | WriteFailed string

record report =
  failures :: "failure list"
  writes :: "file_write list"

subsection \<open>Pre-write validation\<close>

text \<open>
  "Ensure no excluded items leaked through": whether an item is pushed to
  \<^verbatim>\<open>invalidUrls\<close>. \<^verbatim>\<open>new URL\<close> and \<^verbatim>\<open>new RegExp\<close> may throw.
\<close>

definition sitemapPatterns :: "string list" where
  "sitemapPatterns = [''sitemap.xml'', ''sitemap.txt'', ''sitemap-index.xml'']"

fun matches_any :: "world \<Rightarrow> string list \<Rightarrow> string \<Rightarrow> js_error + bool" where
  "matches_any w [] u = Inr False"
| "matches_any w (pattern # rest) u =
     (case regexp_test w (''^'' @ wildcards_to_regex pattern @ ''$'') u of
        None \<Rightarrow> Inl InvalidRegExp
      | Some m \<Rightarrow> (case matches_any w rest u of Inl e \<Rightarrow> Inl e | Inr r \<Rightarrow> Inr (m \<or> r)))"

definition leaked :: "world \<Rightarrow> string list \<Rightarrow> string list \<Rightarrow> item \<Rightarrow> js_error + bool" where
  "leaked w excl exts it =
     (case url_pathname w (url it) of
        None \<Rightarrow> Inl InvalidURL
      | Some urlPath \<Rightarrow>
          (let filename = path_basename w urlPath;
               isSitemap = (\<exists>p \<in> set sitemapPatterns. includes_s filename p)
           in case matches_any w excl (url it) of
                Inl e \<Rightarrow> Inl e
              | Inr m \<Rightarrow>
                  Inr (isSitemap \<or> m \<or> (\<exists>ext \<in> set exts. endsWith (toLowerCase filename) ext))))"

fun invalid_urls :: "world \<Rightarrow> string list \<Rightarrow> string list \<Rightarrow> item list \<Rightarrow> js_error + string list" where
  "invalid_urls w excl exts [] = Inr []"
| "invalid_urls w excl exts (it # items) =
     (case leaked w excl exts it of
        Inl e \<Rightarrow> Inl e
      | Inr bad \<Rightarrow>
          (case invalid_urls w excl exts items of
             Inl e \<Rightarrow> Inl e
           | Inr r \<Rightarrow> Inr (if bad then url it # r else r)))"

subsection \<open>Generation\<close>

text \<open>
  The chunks for the limit \<^verbatim>\<open>MAX_URLS_PER_SITEMAP\<close>. For \<^verbatim>\<open>NaN\<close> the loop runs once
  on a non-empty list and pushes \<^verbatim>\<open>urls.slice(0, NaN)\<close>, the empty list; for a limit
  below 1 and a non-empty list the index never passes the length and the loop does
  not end (\<open>None\<close>).
\<close>

definition chunks_of :: "int option \<Rightarrow> 'a list \<Rightarrow> 'a list list option" where
  "chunks_of m urls =
     (case m of
        None \<Rightarrow> Some (if urls = [] then [] else [[]])
      | Some k \<Rightarrow> split_chunks (nat k) urls)"

function decimal :: "nat \<Rightarrow> string" where
  "decimal n =
     (if n < 10 then [''0123456789'' ! n] else decimal (n div 10) @ [''0123456789'' ! (n mod 10)])"
  by pat_completeness auto
termination
  by (relation "measure id") auto

declare decimal.simps [simp del]

text \<open>\<^verbatim>\<open>name.replace(/\.xml$/i, s)\<close> and \<^verbatim>\<open>name.replace(/\.txt$/i, s)\<close>.\<close>

definition replace_suffix :: "string \<Rightarrow> string \<Rightarrow> string \<Rightarrow> string" where
  "replace_suffix ending s name =
     (if length ending \<le> length name
         \<and> map toLowerAscii (drop (length name - length ending) name) = ending
      then take (length name - length ending) name @ s
      else name)"

text \<open>
  The steps of the generation in the order of the code: a write, or an exception of
  \<^verbatim>\<open>normalizeUrl\<close> while an entry of the index is built.
\<close>

datatype step = Write file_write | Throw js_error

definition gzip_step :: "world \<Rightarrow> bool \<Rightarrow> string \<Rightarrow> string \<Rightarrow> rendering \<Rightarrow> step list" where
  "gzip_step w generateGzip dir out r =
     (if generateGzip
      then [Write \<lparr>written_path = path_join w dir (path_basename w out @ ''.gz''), rendered = Gzip r\<rparr>]
      else [])"

definition part_url :: "world \<Rightarrow> string \<Rightarrow> string \<Rightarrow> string \<Rightarrow> string option" where
  "part_url w siteUrl pubDir outPart =
     normalizeUrl w siteUrl (''/'' @ slashes (path_relative w pubDir outPart))"

definition xml_steps ::
  "world \<Rightarrow> action \<Rightarrow> string \<Rightarrow> string \<Rightarrow> string \<Rightarrow> string \<Rightarrow> bool \<Rightarrow> item list \<Rightarrow> item list list \<Rightarrow> step list" where
  "xml_steps w a siteUrl pubDir dir sitemapFilename generateGzip urls chunks =
     (let outMain = path_join w dir sitemapFilename
      in if length chunks \<le> 1
         then Write \<lparr>written_path = outMain, rendered = SitemapXml urls\<rparr>
                # gzip_step w generateGzip dir outMain (SitemapXml urls)
         else
           (let outPart = (\<lambda>i. path_join w dir
                                   (replace_suffix ''.xml'' (''-'' @ decimal (i + 1) @ ''.xml'') sitemapFilename));
                parts = concat (map (\<lambda>i.
                          Write \<lparr>written_path = outPart i, rendered = SitemapXml (chunks ! i)\<rparr>
                            # (case part_url w siteUrl pubDir (outPart i) of
                                 None \<Rightarrow> [Throw InvalidURL] | Some u \<Rightarrow> [])
                            @ gzip_step w generateGzip dir (outPart i) (SitemapXml (chunks ! i)))
                          [0..<length chunks]);
                indexItems = map (\<lambda>i. the (part_url w siteUrl pubDir (outPart i))) [0..<length chunks];
                sitemapIndexPath = path_join w dir ''sitemap-index.xml''
            in parts
               @ [Write \<lparr>written_path = sitemapIndexPath, rendered = SitemapIndex indexItems\<rparr>]
               @ (if getEnv a ''TEST_CORRUPT_SITEMAP_INDEX'' = ''true''
                  then [Write \<lparr>written_path = sitemapIndexPath, rendered = CorruptedIndex indexItems\<rparr>]
                  else [])
               @ gzip_step w generateGzip dir sitemapIndexPath (SitemapIndex indexItems)))"

definition txt_steps :: "world \<Rightarrow> string \<Rightarrow> string \<Rightarrow> item list \<Rightarrow> item list list \<Rightarrow> step list" where
  "txt_steps w dir sitemapFilename urls chunks =
     (let txtFilename = replace_suffix ''.xml'' ''.txt'' sitemapFilename
      in if length chunks \<le> 1
         then [Write \<lparr>written_path = path_join w dir txtFilename, rendered = SitemapTxt urls\<rparr>]
         else map (\<lambda>i. Write
                     \<lparr>written_path = path_join w dir
                         (replace_suffix ''.txt'' (''-'' @ decimal (i + 1) @ ''.txt'') txtFilename),
                      rendered = SitemapTxt (chunks ! i)\<rparr>)
                [0..<length chunks])"

text \<open>
  Running the steps: the first exception, thrown or raised by a write that fails, ends
  the generation in the \<^verbatim>\<open>catch\<close> of \<^verbatim>\<open>run\<close>, which reports it; the files written
  before stay.
\<close>

fun perform :: "world \<Rightarrow> step list \<Rightarrow> report \<Rightarrow> report" where
  "perform w [] r = r"
| "perform w (Throw e # steps) r = r\<lparr>failures := failures r @ [Thrown e]\<rparr>"
| "perform w (Write f # steps) r =
     (if writable w (written_path f) then perform w steps (r\<lparr>writes := writes r @ [f]\<rparr>)
      else r\<lparr>failures := failures r @ [WriteFailed (written_path f)]\<rparr>)"

subsection \<open>run\<close>

text \<open>
  \<^verbatim>\<open>run()\<close> up to the end of the section "Sitemap Generation", without the log
  lines. The sections after it (validation, artifact upload, external validation,
  outputs) read the written files, report and upload; they write no sitemap file.
  The result is \<open>None\<close> when the chunk loop does not end.

  The model has two parts. \<open>run\<close> is the code up to the check of the priority.
  \<open>run_configured\<close> is the code after that check; it takes the site URL and the
  public directory that \<open>run\<close> has determined. The source reads the list inputs
  before it checks the priority; reading an input has no effect, and the model reads
  them where they are used: in \<open>run_options\<close>, \<open>excludeExtensions\<close>,
  \<open>early_validation\<close> and \<open>generation_steps\<close>.
\<close>

definition fail :: "failure \<Rightarrow> report \<Rightarrow> report" where
  "fail f r = r\<lparr>failures := failures r @ [f]\<rparr>"

text \<open>The options that \<^verbatim>\<open>run\<close> passes to \<^verbatim>\<open>buildUrls\<close>, and \<^verbatim>\<open>excludeExtensions\<close>.\<close>

definition run_options :: "action \<Rightarrow> string \<Rightarrow> string \<Rightarrow> options" where
  "run_options a siteUrl pubDir =
     \<lparr>baseUrl = siteUrl, publicDir = pubDir,
      includePatterns = input_list (or_else (getInput a ''include_patterns'') ''**/*.html,**/*.htm''),
      excludePatterns = input_list (or_else (getInput a ''exclude_patterns'') ''**/*.map''),
      excludeUrls = input_list (or_else (getInput a ''exclude_urls'')
                                  ''*/sitemap*.xml,*/sitemap*.txt,*/sitemap*.xml.gz''),
      lastmodStrategy = or_else (getInput a ''lastmod_strategy'') ''git'',
      opt_changefreq = (if getInput a ''changefreq'' = [] then None else Some (getInput a ''changefreq'')),
      opt_priority = (if getInput a ''priority'' \<noteq> [] then Some (getInput a ''priority'') else None),
      additionalUrls = input_list (getInput a ''additional_urls''),
      parseCanonical = is_true (or_else (getInput a ''parse_canonical'') ''true''),
      discoverLinks = is_true (or_else (getInput a ''discover_links'') ''true'')\<rparr>"

definition excludeExtensions :: "action \<Rightarrow> string list" where
  "excludeExtensions a =
     extension_list (or_else (getInput a ''exclude_extensions'')
                       ''.zip,.exe,.dmg,.pkg,.deb,.rpm,.tar,.gz,.7z,.rar,.iso'')"

text \<open>"Early strict validation of additional_urls": a failure is reported, the run goes on.\<close>

definition early_validation :: "action \<Rightarrow> string list \<Rightarrow> report \<Rightarrow> report" where
  "early_validation a addUrls r =
     (let earlyStrictValidation = is_true (or_else (getInput a ''strict_validation'') ''false'');
          invalidAdditional = filter (\<lambda>u. \<not> is_http u) addUrls
      in if earlyStrictValidation \<and> addUrls \<noteq> [] \<and> invalidAdditional \<noteq> []
         then fail (InvalidAdditionalUrls (length invalidAdditional)) r else r)"

text \<open>The steps of the section "Sitemap Generation" for the final list and its chunks.\<close>

definition generation_steps ::
  "world \<Rightarrow> action \<Rightarrow> string \<Rightarrow> string \<Rightarrow> item list \<Rightarrow> item list list \<Rightarrow> step list" where
  "generation_steps w a siteUrl pubDir urls chunks =
     (let sitemapOutputDir = or_else (getInput a ''sitemap_output_dir'') pubDir;
          sitemapFilename = or_else (getInput a ''sitemap_filename'') ''sitemap.xml'';
          generateXmlSitemap =
            resolveBooleanInput a ''generate_sitemap_xml'' ''generate_xml_sitemap'' ''true'';
          generateTxtSitemap =
            resolveBooleanInput a ''generate_sitemap_txt'' ''generate_txt_sitemap'' ''true'';
          generateGzip =
            resolveBooleanInput a ''generate_sitemap_gzip'' ''generate_gzip'' ''true''
      in (if generateXmlSitemap
          then xml_steps w a siteUrl pubDir sitemapOutputDir sitemapFilename generateGzip urls chunks
          else [])
         @ (if generateTxtSitemap
            then txt_steps w sitemapOutputDir sitemapFilename urls chunks
            else []))"

definition run_configured :: "world \<Rightarrow> limits \<Rightarrow> action \<Rightarrow> string \<Rightarrow> string \<Rightarrow> report option" where
  "run_configured w lims a siteUrl pubDir =
     (let opts = run_options a siteUrl pubDir;
          r1 = early_validation a (additionalUrls opts) \<lparr>failures = [], writes = []\<rparr>
      in if \<not> is_http siteUrl then Some (fail SiteUrlScheme r1)
         else if \<not> existsSync w pubDir then Some (fail (PublicDirNotFound pubDir) r1)
         else
           (case buildUrls w lims opts of
              Inl e \<Rightarrow> Some (fail (Thrown e) r1)
            | Inr built \<Rightarrow>
                (case invalid_urls w (excludeUrls opts) (excludeExtensions a) built of
                   Inl e \<Rightarrow> Some (fail (Thrown e) r1)
                 | Inr invalidUrls \<Rightarrow>
                     (let urls = (if invalidUrls \<noteq> []
                                  then filter (\<lambda>it. url it \<notin> set invalidUrls) built
                                  else built)
                      in case chunks_of (MAX_URLS_PER_SITEMAP a) urls of
                           None \<Rightarrow> None
                         | Some chunks \<Rightarrow>
                             Some (perform w (generation_steps w a siteUrl pubDir urls chunks) r1)))))"

definition run :: "world \<Rightarrow> limits \<Rightarrow> action \<Rightarrow> report option" where
  "run w lims a =
     (let r0 = \<lparr>failures = [], writes = []\<rparr>;
          allowAutodetect = is_true (or_else (getInput a ''allow_autodetect'') ''true'');
          siteUrlInputRaw = getInput a ''site_url'';
          publicDirInput = getInput a ''public_dir'';
          pubDir = (if allowAutodetect \<and> publicDirInput = [] then findPublicDir a publicDirInput
                    else publicDirInput);
          siteUrl = (if allowAutodetect \<and> siteUrlInputRaw = [] then inferSiteUrl a pubDir
                     else siteUrlInputRaw)
      in if siteUrl = [] then Some (fail MissingSiteUrl r0)
         else if pubDir = [] then Some (fail MissingPublicDir r0)
         else
           (let priorityInput = getInput a ''priority''
            in if priorityInput \<noteq> []
                  \<and> (let pr = parseFloat a priorityInput
                      in isNaN pr \<or> below_zero pr \<or> above_one pr)
               then Some (fail (InvalidPriority priorityInput) r0)
               else run_configured w lims a siteUrl pubDir))"

section \<open>Sample inputs\<close>

text \<open>A TXT sitemap of two lines; the second ends in a carriage return.\<close>

definition txt_two_lines :: string where
  "txt_two_lines = ''http://a'' @ [CR, LF] @ ''ftp://b'' @ [CR]"

text \<open>A TXT sitemap of one line with a carriage return inside.\<close>

definition txt_cr_line :: string where
  "txt_cr_line = ''https://a.example/x'' @ [CR] @ ''y''"

text \<open>An XML sitemap without the namespace whose only location is not http(s).\<close>

definition xml_ftp_loc :: string where
  "xml_ftp_loc = ''<?xml?><urlset><url><loc>ftp://x</loc></url></urlset>''"

text \<open>A site with the two pages \<^verbatim>\<open>B.html\<close> and \<^verbatim>\<open>a.html\<close>.\<close>

definition site_mixed_case :: world where
  "site_mixed_case = site ''/site'' [''B.html'', ''a.html''] [(''B.html'', plain_page), (''a.html'', plain_page)]"

text \<open>
  A site with the page \<^verbatim>\<open>blog/post.html\<close>, which declares the relative canonical
  \<^verbatim>\<open>canon.html\<close>.
\<close>

definition site_blog :: world where
  "site_blog =
     site ''/site'' [''blog/post.html'']
       [(''blog/post.html'', \<lparr>canonical_href = Some ''canon.html'', anchor_hrefs = []\<rparr>)]"

text \<open>A site with one page, and options with manual URLs.\<close>

definition site_single :: world where
  "site_single = site ''/site'' [''index.html''] [(''index.html'', plain_page)]"

definition options_faq :: options where
  "options_faq = default_options\<lparr>additionalUrls := [''https://example.com/sitemap/faq-xml'']\<rparr>"

definition options_manual :: options where
  "options_manual =
     default_options\<lparr>additionalUrls := [''https://example.com/index.html'', ''https://example.com/x''],
                     opt_changefreq := Some ''weekly'', opt_priority := Some ''0.8''\<rparr>"

definition plain_item :: "string \<Rightarrow> item" where
  "plain_item u = \<lparr>url = u, lastmod = None, changefreq = None, priority = None\<rparr>"

text \<open>
  A site of three pages, \<^verbatim>\<open>index.html\<close> linking to the other two, for a run whose
  only include pattern is \<^verbatim>\<open>index.html\<close>, so that glob finds that file alone; the
  options add two manual
  URLs, the first of which is the URL of \<^verbatim>\<open>index.html\<close> and the second the URL of
  \<^verbatim>\<open>a.html\<close>.
\<close>

definition site_hub :: world where
  "site_hub =
     site ''/site'' [''index.html'']
       [(''index.html'', \<lparr>canonical_href = None, anchor_hrefs = [''/a.html'', ''b.html'']\<rparr>),
        (''a.html'', plain_page), (''b.html'', plain_page)]"

definition options_hub :: options where
  "options_hub =
     default_options\<lparr>includePatterns := [''index.html''],
                     additionalUrls := [''https://example.com/index.html'', ''https://example.com/a.html''],
                     opt_changefreq := Some ''weekly'', opt_priority := Some ''0.8''\<rparr>"

definition hub_index :: item where
  "hub_index =
     \<lparr>url = ''https://example.com/index.html'', lastmod = None, changefreq = Some ''weekly'',
      priority = Some (PriorityNumber (Num (4 / 5)))\<rparr>"

definition blog_post :: html_doc where
  "blog_post = \<lparr>canonical_href = Some ''canon.html'', anchor_hrefs = []\<rparr>"

definition site_stat :: stat where
  "site_stat = \<lparr>isFile = True, mtime_iso = ''2025-01-01T00:00:00.000Z''\<rparr>"

text \<open>
  A site whose \<^verbatim>\<open>index.html\<close> links to \<^verbatim>\<open>a.html\<close>, to the \<^verbatim>\<open>sitemap.xml\<close>
  of an earlier run and to \<^verbatim>\<open>b.html\<close>, for a run whose only include pattern is
  \<^verbatim>\<open>index.html\<close>, so that glob finds that file alone; and a discovery cap of two.
\<close>

definition site_sitemap_link :: world where
  "site_sitemap_link =
     site ''/site'' [''index.html'']
       [(''index.html'',
          \<lparr>canonical_href = None, anchor_hrefs = [''/a.html'', ''/sitemap.xml'', ''/b.html'']\<rparr>),
        (''a.html'', plain_page), (''sitemap.xml'', plain_page), (''b.html'', plain_page)]"

definition options_index_only :: options where
  "options_index_only = default_options\<lparr>includePatterns := [''index.html'']\<rparr>"

definition cap_two :: limits where
  "cap_two = \<lparr>MAX_DISCOVERED_LINKS = Some 2, MAX_TOTAL_URLS = Some 100000\<rparr>"

text \<open>
  The inputs of an action given as a table, with nothing detected, and the run on
  the one-page site with the priority \<^verbatim>\<open>1.5\<close>.
\<close>

definition inputs :: "(string \<times> string) list \<Rightarrow> action" where
  "inputs table =
     \<lparr>getInput = (\<lambda>name. case map_of table name of None \<Rightarrow> [] | Some v \<Rightarrow> v),
      getEnv = (\<lambda>name. []),
      parseFloat = parseFloat_decimal,
      MAX_URLS_PER_SITEMAP = Some 50000,
      findPublicDir = (\<lambda>d. []),
      inferSiteUrl = (\<lambda>d. [])\<rparr>"

definition action_priority_high :: action where
  "action_priority_high =
     inputs [(''site_url'', ''https://example.com''), (''public_dir'', ''/site''), (''priority'', ''1.5'')]"

text \<open>
  The run on the one-page site with the priority \<^verbatim>\<open>0x5\<close>: the options that
  \<^verbatim>\<open>run\<close> passes on, the item of the page and the files of the run.
\<close>

definition action_priority_hex :: action where
  "action_priority_hex =
     inputs [(''site_url'', ''https://example.com''), (''public_dir'', ''/site''), (''priority'', ''0x5'')]"

definition options_priority_hex :: options where
  "options_priority_hex = default_options\<lparr>lastmodStrategy := ''git'', opt_priority := Some ''0x5''\<rparr>"

definition item_priority_five :: item where
  "item_priority_five =
     \<lparr>url = ''https://example.com/index.html'', lastmod = Some ''2025-01-01T00:00:00.000Z'',
      changefreq = None, priority = Some (PriorityNumber (Num 5))\<rparr>"

definition writes_priority_five :: "file_write list" where
  "writes_priority_five =
     [\<lparr>written_path = ''/site/sitemap.xml'', rendered = SitemapXml [item_priority_five]\<rparr>,
      \<lparr>written_path = ''/site/sitemap.xml.gz'', rendered = Gzip (SitemapXml [item_priority_five])\<rparr>,
      \<lparr>written_path = ''/site/sitemap.txt'', rendered = SitemapTxt [item_priority_five]\<rparr>]"


text \<open>The same for the priority \<^verbatim>\<open>0.5abc\<close>.\<close>

definition action_priority_suffix :: action where
  "action_priority_suffix =
     inputs [(''site_url'', ''https://example.com''), (''public_dir'', ''/site''),
             (''priority'', ''0.5abc'')]"

definition options_priority_suffix :: options where
  "options_priority_suffix =
     default_options\<lparr>lastmodStrategy := ''git'', opt_priority := Some ''0.5abc''\<rparr>"

definition item_priority_nan :: item where
  "item_priority_nan =
     \<lparr>url = ''https://example.com/index.html'', lastmod = Some ''2025-01-01T00:00:00.000Z'',
      changefreq = None, priority = Some (PriorityNumber NaN)\<rparr>"

definition writes_priority_nan :: "file_write list" where
  "writes_priority_nan =
     [\<lparr>written_path = ''/site/sitemap.xml'', rendered = SitemapXml [item_priority_nan]\<rparr>,
      \<lparr>written_path = ''/site/sitemap.xml.gz'', rendered = Gzip (SitemapXml [item_priority_nan])\<rparr>,
      \<lparr>written_path = ''/site/sitemap.txt'', rendered = SitemapTxt [item_priority_nan]\<rparr>]"
section \<open>Properties of the chunker\<close>

lemma ceil_div_nat:
  assumes "0 < m"
  shows "nat \<lceil>real n / real m\<rceil> = (n + m - 1) div m"
proof -
  define q where "q = (n + m - 1) div m"
  have up: "n + m - 1 < q * m + m"
    unfolding q_def using assms
    by (metis add.commute div_mult_mod_eq mod_less_divisor add_less_cancel_left)
  have lo: "q * m \<le> n + m - 1"
    unfolding q_def by simp
  have a: "real n \<le> real q * real m"
  proof -
    from up assms have "n \<le> q * m" by linarith
    then have "real n \<le> real (q * m)" using of_nat_le_iff by blast
    then show ?thesis by simp
  qed
  have b: "real q * real m < real n + real m"
  proof -
    from lo assms have "q * m < n + m" by linarith
    then have "real (q * m) < real (n + m)" using of_nat_less_iff by blast
    then show ?thesis by simp
  qed
  have mpos: "0 < real m" using assms by simp
  have "\<lceil>real n / real m\<rceil> = int q"
  proof (rule ceiling_unique)
    show "real_of_int (int q) - 1 < real n / real m"
      using b mpos by (simp add: field_simps)
    show "real n / real m \<le> real_of_int (int q)"
      using a mpos by (simp add: field_simps)
  qed
  then show ?thesis by (simp add: q_def)
qed

lemma div_step:
  assumes "0 < (m::nat)" "i < n"
  shows "Suc ((n - (i + m) + m - 1) div m) = (n - i + m - 1) div m"
proof (cases "i + m \<le> n")
  case True
  define x where "x = n - (i + m) + m - 1"
  have "n - i + m - 1 = x + m" unfolding x_def using True assms by linarith
  moreover have "(x + m) div m = Suc (x div m)" using assms by simp
  ultimately show ?thesis unfolding x_def by (simp only:)
next
  case False
  define y where "y = n - i + m - 1"
  from False have a: "n - (i + m) + m - 1 = m - 1" by simp
  from False assms have b: "m \<le> y" "y < 2 * m" unfolding y_def by linarith+
  have "y div m = 1"
    by (rule div_nat_eqI) (use b in simp_all)
  moreover have "(m - 1) div m = 0" using assms by simp
  ultimately show ?thesis unfolding y_def by (simp only: a)
qed

text \<open>
  The loop started at index \<open>i\<close> with accumulator \<open>acc\<close> returns, and appends to
  \<open>acc\<close> a partition of the rest of the list.
\<close>

lemma chunk_loop_shape:
  assumes "0 < m"
  shows "\<exists>cs. chunk_loop m urls i acc = Some (acc @ cs) \<and> concat cs = drop i urls
           \<and> length cs = (length urls - i + m - 1) div m
           \<and> (\<forall>k. Suc k < length cs \<longrightarrow> length (cs ! k) = m)"
  using assms
proof (induction m urls i acc rule: chunk_loop.induct)
  case (1 m urls i chunks)
  show ?case
  proof (cases "i < length urls")
    case False
    then have "chunk_loop m urls i chunks = Some (chunks @ [])"
      by (simp add: chunk_loop.simps[of m urls i chunks])
    moreover have "(length urls - i + m - 1) div m = 0" using False 1(2) by simp
    ultimately have "chunk_loop m urls i chunks = Some (chunks @ []) \<and> concat [] = drop i urls
           \<and> length ([]::'a list list) = (length urls - i + m - 1) div m
           \<and> (\<forall>k. Suc k < length ([]::'a list list) \<longrightarrow> length (([]::'a list list) ! k) = m)"
      using False by simp
    then show ?thesis by (rule exI[of _ "[]"])
  next
    case True
    let ?s = "slice urls i (i + m)"
    from 1(2) have m0: "m \<noteq> 0" by simp
    from 1(1)[OF True m0 1(2)] obtain cs where
      r: "chunk_loop m urls (i + m) (chunks @ [?s]) = Some ((chunks @ [?s]) @ cs)"
      and c: "concat cs = drop (i + m) urls"
      and l: "length cs = (length urls - (i + m) + m - 1) div m"
      and f: "\<forall>k. Suc k < length cs \<longrightarrow> length (cs ! k) = m" by blast
    have e1: "chunk_loop m urls i chunks = Some (chunks @ (?s # cs))"
      using True m0 r by (simp add: chunk_loop.simps[of m urls i chunks])
    have e2: "concat (?s # cs) = drop i urls"
    proof -
      have "take m (drop i urls) @ drop m (drop i urls) = drop i urls"
        by (rule append_take_drop_id)
      then have "take m (drop i urls) @ drop (i + m) urls = drop i urls"
        by (simp add: add.commute)
      then show ?thesis using c by (simp add: slice_def)
    qed
    have e3: "length (?s # cs) = (length urls - i + m - 1) div m"
      using l div_step[OF 1(2) True] by simp
    have e4: "\<forall>k. Suc k < length (?s # cs) \<longrightarrow> length ((?s # cs) ! k) = m"
    proof (intro allI impI)
      fix k assume k: "Suc k < length (?s # cs)"
      show "length ((?s # cs) ! k) = m"
      proof (cases k)
        case 0
        from k 0 have "0 < length cs" by simp
        with l have "0 < (length urls - (i + m) + m - 1) div m" by simp
        then have "m \<le> length urls - (i + m) + m - 1"
          using 1(2) by (simp add: div_greater_zero_iff)
        then have "i + m \<le> length urls" using 1(2) by linarith
        then show ?thesis using 0 by (simp add: slice_def)
      next
        case (Suc k')
        then show ?thesis using k f by simp
      qed
    qed
    show ?thesis
      by (rule exI[of _ "?s # cs"], intro conjI) (rule e1, rule e2, rule e3, rule e4)
  qed
qed

text \<open>
  C2. For a list of \<open>N\<close> items and a per-file limit \<open>M \<ge> 1\<close> the chunker
  returns; it produces \<open>ceil (N / M)\<close> chunks; every chunk except possibly the last
  has exactly \<open>M\<close> items; and the chunks concatenated in order are the input list.
\<close>

theorem split_chunks_partition:
  assumes "1 \<le> m"
  shows "\<exists>chunks. split_chunks m urls = Some chunks
           \<and> length chunks = nat \<lceil>real (length urls) / real m\<rceil>
           \<and> (\<forall>k. Suc k < length chunks \<longrightarrow> length (chunks ! k) = m)
           \<and> concat chunks = urls"
proof -
  from assms have m: "0 < m" by simp
  from chunk_loop_shape[OF m, of urls 0 "[]"] obtain cs where
    r: "chunk_loop m urls 0 [] = Some ([] @ cs)"
    and c: "concat cs = drop 0 urls"
    and l: "length cs = (length urls - 0 + m - 1) div m"
    and f: "\<forall>k. Suc k < length cs \<longrightarrow> length (cs ! k) = m" by blast
  have e1: "split_chunks m urls = Some cs" using r by (simp add: split_chunks_def)
  have e2: "length cs = nat \<lceil>real (length urls) / real m\<rceil>"
    using l by (simp add: ceil_div_nat[OF m])
  have e3: "concat cs = urls" using c by simp
  show ?thesis
    by (rule exI[of _ cs], intro conjI) (rule e1, rule e2, rule f, rule e3)
qed

theorem split_chunks_partition_witness:
  "(1::nat) \<le> 5 \<and> (\<exists>chunks. split_chunks 5 ''abcdefghijkl'' = Some chunks
      \<and> length chunks = nat \<lceil>real (length ''abcdefghijkl'') / real 5\<rceil>
      \<and> (\<forall>k. Suc k < length chunks \<longrightarrow> length (chunks ! k) = 5)
      \<and> concat chunks = ''abcdefghijkl'')"
proof -
  have h: "(1::nat) \<le> 5" by simp
  show ?thesis by (rule conjI[OF h split_chunks_partition[OF h]])
qed


section \<open>Properties of the TXT validators\<close>

lemma split_lines_from_no_LF:
  "LF \<notin> set cur \<Longrightarrow> l \<in> set (split_lines_from cur s) \<Longrightarrow> LF \<notin> set l"
  by (induction cur s rule: split_lines_from.induct) (auto split: if_splits)

lemma txt_lines_no_LF: "l \<in> set (txt_lines content) \<Longrightarrow> LF \<notin> set l"
  using split_lines_from_no_LF[of "[]" l content] by (simp add: txt_lines_def split_lines_def)

lemma count_invalid_filter:
  "count_invalid ls n = n + length (filter invalid_line ls)"
  by (induction ls arbitrary: n) auto

lemma invalid_line_CR: "LF \<notin> set l \<Longrightarrow> invalid_line l \<longleftrightarrow> \<not> is_http l \<or> CR \<in> set l"
  by (auto simp: invalid_line_def has_newline_def)

text \<open>
  C10, as amended. In both TXT validators a line is counted invalid if and only if it
  does not start with \<^verbatim>\<open>http://\<close> or \<^verbatim>\<open>https://\<close> (in any case) or contains
  a carriage return. The lines come from splitting on \<^verbatim>\<open>/\r?\n/\<close>, so no line
  contains a line feed and that half of the embedded-newline test never fires; a
  carriage return that is not directly followed by a line feed is no separator and
  stays in its line.
\<close>

theorem txt_invalid_lines:
  "(\<forall>l \<in> set (txt_lines content).
      LF \<notin> set l \<and> (invalid_line l \<longleftrightarrow> \<not> is_http l \<or> CR \<in> set l))
   \<and> count_invalid (txt_lines content) 0 =
       length (filter (\<lambda>l. \<not> is_http l \<or> CR \<in> set l) (txt_lines content))"
proof -
  have a: "\<forall>l \<in> set (txt_lines content).
      LF \<notin> set l \<and> (invalid_line l \<longleftrightarrow> \<not> is_http l \<or> CR \<in> set l)"
    using txt_lines_no_LF invalid_line_CR by blast
  then have "filter invalid_line (txt_lines content) =
      filter (\<lambda>l. \<not> is_http l \<or> CR \<in> set l) (txt_lines content)"
    by (intro filter_cong) auto
  then show ?thesis using a by (simp add: count_invalid_filter)
qed

theorem txt_invalid_lines_witness:
  "(''ftp://b'' @ [CR]) \<in> set (txt_lines txt_two_lines)
   \<and> LF \<notin> set (''ftp://b'' @ [CR])
   \<and> invalid_line (''ftp://b'' @ [CR])
   \<and> count_invalid (txt_lines txt_two_lines) 0 = 1"
proof -
  have l: "txt_lines txt_two_lines = [''http://a'', ''ftp://b'' @ [CR]]"
    by code_simp
  have h: "is_http ''http://a''" "\<not> is_http (''ftp://b'' @ [CR])"
    by code_simp+
  have c: "CR \<notin> set ''http://a''" by code_simp
  from txt_invalid_lines[of txt_two_lines] h c show ?thesis unfolding l by simp
qed

text \<open>
  The claim as stated fails: the single line of \<open>txt_cr_line\<close> starts with
  \<^verbatim>\<open>https://\<close>, and both validators count it invalid, because the
  embedded-newline test finds the carriage return.
\<close>

theorem txt_embedded_newline_counterexample:
  "txt_lines txt_cr_line = [txt_cr_line]
   \<and> is_http txt_cr_line
   \<and> has_newline txt_cr_line
   \<and> validateTxtSitemap txt_cr_line \<lparr>strict = False, maxUrls = 50000\<rparr>
       = [\<lparr>ftype = Warning, message = ContainsInvalidUrls 1\<rparr>]
   \<and> validateTxtFileContent txt_cr_line
         \<lparr>errors = [], warnings = [], info = []\<rparr> \<lparr>strict = False, maxUrls = 50000\<rparr>
       = \<lparr>errors = [], warnings = [ContainsInvalidUrls 1], info = [ContainsUrls 1]\<rparr>"
proof -
  have l: "txt_lines txt_cr_line = [txt_cr_line]"
    by code_simp
  have h: "is_http txt_cr_line"
    by code_simp
  have n: "has_newline txt_cr_line"
    by code_simp
  have i: "invalid_line txt_cr_line"
    using n by (simp add: invalid_line_def)
  have v: "validateTxtSitemap txt_cr_line \<lparr>strict = False, maxUrls = 50000\<rparr>
       = [\<lparr>ftype = Warning, message = ContainsInvalidUrls 1\<rparr>]"
    by (simp add: validateTxtSitemap_def l i Let_def)
  have w: "validateTxtFileContent txt_cr_line
         \<lparr>errors = [], warnings = [], info = []\<rparr> \<lparr>strict = False, maxUrls = 50000\<rparr>
       = \<lparr>errors = [], warnings = [ContainsInvalidUrls 1], info = [ContainsUrls 1]\<rparr>"
    by (simp add: validateTxtFileContent_def report_def l i Let_def)
  show ?thesis by (intro conjI l h n v w)
qed

section \<open>Properties of the XML validator\<close>

lemma in_set_if1: "f \<in> set (if c then [x] else []) \<longleftrightarrow> c \<and> f = x"
  by (cases c) simp_all

lemma in_set_if2: "f \<in> set (if c then [x] else [y]) \<longleftrightarrow> (c \<and> f = x) \<or> (\<not> c \<and> f = y)"
  by (cases c) simp_all

lemma in_set_if3:
  "f \<in> set (if c then [x] else if d then [y] else []) \<longleftrightarrow> (c \<and> f = x) \<or> (\<not> c \<and> d \<and> f = y)"
  by (cases c; cases d) simp_all

lemma validateXmlSitemap_mem:
  "f \<in> set (validateXmlSitemap pf doc opts) \<Longrightarrow>
     (policy_message (message f) \<longrightarrow> ftype f = (if strict opts then Error else Warning)) \<and>
     (advisory_message (message f) \<longrightarrow> ftype f = Warning)"
  unfolding validateXmlSitemap_def Let_def set_append Un_iff in_set_if1 in_set_if2 in_set_if3
  apply (elim disjE conjE)
  apply simp_all
  done


lemma validateXmlSitemap_complete:
  assumes "R = validateXmlSitemap pf doc opts"
    and "policy = (if strict opts then Error else Warning)"
  shows "(\<not> startsWith (trim doc) ''<?xml'' \<or> \<not> test_open_tag doc ''<urlset''
            \<or> \<not> includes_ci doc ''</urlset>''
          \<longrightarrow> \<lparr>ftype = policy, message = InvalidXmlStructure\<rparr> \<in> set R)"
    and "(\<not> includes_s doc sitemap_namespace
          \<longrightarrow> \<lparr>ftype = policy, message = MissingNamespace\<rparr> \<in> set R)"
    and "(\<not> (includes_s doc ''<url>'' \<and> includes_s doc ''</url>'')
          \<longrightarrow> \<lparr>ftype = policy, message = MissingUrlTags\<rparr> \<in> set R)"
    and "(includes_s doc ''<url>'' \<and> includes_s doc ''</url>''
            \<and> \<not> (includes_s doc ''<loc>'' \<and> includes_s doc ''</loc>'')
          \<longrightarrow> \<lparr>ftype = policy, message = MissingLocTags\<rparr> \<in> set R)"
    and "(count_matches_ci doc ''<url>'' > maxUrls opts
          \<longrightarrow> \<lparr>ftype = policy,
                message = ExceedsUrlLimit (count_matches_ci doc ''<url>'') (maxUrls opts)\<rparr> \<in> set R)"
    and "((\<exists>l \<in> set (match_elements ''<loc>'' ''</loc>'' doc). invalid_loc l)
          \<longrightarrow> \<lparr>ftype = Warning, message = ContainsInvalidUrls
                (length (filter invalid_loc (match_elements ''<loc>'' ''</loc>'' doc)))\<rparr> \<in> set R)"
    and "((\<exists>l \<in> set (match_elements ''<changefreq>'' ''</changefreq>'' doc). invalid_changefreq l)
          \<longrightarrow> \<lparr>ftype = Warning, message = InvalidChangefreqValues\<rparr> \<in> set R)"
    and "((\<exists>l \<in> set (match_elements ''<priority>'' ''</priority>'' doc). invalid_priority pf l)
          \<longrightarrow> \<lparr>ftype = Warning, message = InvalidPriorityValue\<rparr> \<in> set R)"
  unfolding assms
  by (simp_all add: validateXmlSitemap_def Let_def in_set_if1 in_set_if2 in_set_if3
        filter_empty_conv split del: if_split)

text \<open>
  C9, as amended. Every finding of the structure, namespace, mandatory-element and
  entry-count checks of \<^verbatim>\<open>validateXmlSitemap\<close> is an error under the strict policy
  and a warning under the lenient one; every finding of the location, changefreq and
  priority checks is a warning under both policies; and each failing check yields
  its finding.
\<close>

theorem xml_finding_types:
  fixes pf doc opts
  defines "R \<equiv> validateXmlSitemap pf doc opts"
    and "policy \<equiv> (if strict opts then Error else Warning)"
  shows "(\<forall>f \<in> set R.
            (policy_message (message f) \<longrightarrow> ftype f = policy) \<and>
            (advisory_message (message f) \<longrightarrow> ftype f = Warning))
    \<and> (\<not> startsWith (trim doc) ''<?xml'' \<or> \<not> test_open_tag doc ''<urlset''
            \<or> \<not> includes_ci doc ''</urlset>''
          \<longrightarrow> \<lparr>ftype = policy, message = InvalidXmlStructure\<rparr> \<in> set R)
    \<and> (\<not> includes_s doc sitemap_namespace
          \<longrightarrow> \<lparr>ftype = policy, message = MissingNamespace\<rparr> \<in> set R)
    \<and> (\<not> (includes_s doc ''<url>'' \<and> includes_s doc ''</url>'')
          \<longrightarrow> \<lparr>ftype = policy, message = MissingUrlTags\<rparr> \<in> set R)
    \<and> (includes_s doc ''<url>'' \<and> includes_s doc ''</url>''
            \<and> \<not> (includes_s doc ''<loc>'' \<and> includes_s doc ''</loc>'')
          \<longrightarrow> \<lparr>ftype = policy, message = MissingLocTags\<rparr> \<in> set R)
    \<and> (count_matches_ci doc ''<url>'' > maxUrls opts
          \<longrightarrow> \<lparr>ftype = policy,
                message = ExceedsUrlLimit (count_matches_ci doc ''<url>'') (maxUrls opts)\<rparr> \<in> set R)
    \<and> ((\<exists>l \<in> set (match_elements ''<loc>'' ''</loc>'' doc). invalid_loc l)
          \<longrightarrow> \<lparr>ftype = Warning, message = ContainsInvalidUrls
                (length (filter invalid_loc (match_elements ''<loc>'' ''</loc>'' doc)))\<rparr> \<in> set R)
    \<and> ((\<exists>l \<in> set (match_elements ''<changefreq>'' ''</changefreq>'' doc). invalid_changefreq l)
          \<longrightarrow> \<lparr>ftype = Warning, message = InvalidChangefreqValues\<rparr> \<in> set R)
    \<and> ((\<exists>l \<in> set (match_elements ''<priority>'' ''</priority>'' doc). invalid_priority pf l)
          \<longrightarrow> \<lparr>ftype = Warning, message = InvalidPriorityValue\<rparr> \<in> set R)"
proof -
  have r: "R = validateXmlSitemap pf doc opts" by (simp add: R_def)
  have p: "policy = (if strict opts then Error else Warning)" by (simp add: policy_def)
  have m: "\<forall>f \<in> set R.
            (policy_message (message f) \<longrightarrow> ftype f = policy) \<and>
            (advisory_message (message f) \<longrightarrow> ftype f = Warning)"
    unfolding r p using validateXmlSitemap_mem by blast
  show ?thesis
    by (intro conjI m validateXmlSitemap_complete[OF r p])
qed

lemma xml_ftp_loc_eval:
  "startsWith (trim xml_ftp_loc) ''<?xml''"
  "test_open_tag xml_ftp_loc ''<urlset''"
  "includes_ci xml_ftp_loc ''</urlset>''"
  "\<not> includes_s xml_ftp_loc sitemap_namespace"
  "includes_s xml_ftp_loc ''<url>''" "includes_s xml_ftp_loc ''</url>''"
  "includes_s xml_ftp_loc ''<loc>''" "includes_s xml_ftp_loc ''</loc>''"
  "count_matches_ci xml_ftp_loc ''<url>'' = 1"
  "match_elements ''<loc>'' ''</loc>'' xml_ftp_loc = [''<loc>ftp://x</loc>'']"
  "match_elements ''<changefreq>'' ''</changefreq>'' xml_ftp_loc = []"
  "match_elements ''<priority>'' ''</priority>'' xml_ftp_loc = []"
  by code_simp+

lemma invalid_loc_ftp: "invalid_loc ''<loc>ftp://x</loc>''"
  by code_simp

theorem xml_finding_types_witness:
  "\<lparr>ftype = Error, message = MissingNamespace\<rparr>
      \<in> set (validateXmlSitemap parseFloat_decimal xml_ftp_loc \<lparr>strict = True, maxUrls = 50000\<rparr>)
   \<and> \<lparr>ftype = Warning, message = ContainsInvalidUrls 1\<rparr>
      \<in> set (validateXmlSitemap parseFloat_decimal xml_ftp_loc \<lparr>strict = True, maxUrls = 50000\<rparr>)
   \<and> policy_message MissingNamespace \<and> advisory_message (ContainsInvalidUrls 1)"
  using xml_finding_types[of parseFloat_decimal xml_ftp_loc "\<lparr>strict = True, maxUrls = 50000\<rparr>"]
    invalid_loc_ftp
  by (simp add: xml_ftp_loc_eval)

text \<open>
  Under the strict policy the document \<open>xml_ftp_loc\<close> fails two checks: the namespace
  check yields an error, the location check (the only location is an \<^verbatim>\<open>ftp\<close> URL)
  yields a warning.
\<close>

theorem xml_strict_warning_counterexample:
  "validateXmlSitemap parseFloat_decimal xml_ftp_loc \<lparr>strict = True, maxUrls = 50000\<rparr> =
     [\<lparr>ftype = Info, message = ValidXmlFormat\<rparr>,
      \<lparr>ftype = Error, message = MissingNamespace\<rparr>,
      \<lparr>ftype = Warning, message = ContainsInvalidUrls 1\<rparr>]
   \<and> match_elements ''<loc>'' ''</loc>'' xml_ftp_loc = [''<loc>ftp://x</loc>'']
   \<and> invalid_loc ''<loc>ftp://x</loc>''"
  using invalid_loc_ftp
  by (simp add: validateXmlSitemap_def Let_def xml_ftp_loc_eval)


section \<open>Properties of the URL collection\<close>

subsection \<open>Deduplication\<close>

lemma set_first_occurrences: "set (first_occurrences xs) \<subseteq> set xs"
proof (induction xs rule: first_occurrences.induct)
  case 1
  then show ?case by simp
next
  case (2 x xs)
  then show ?case by auto
qed

lemma distinct_first_occurrences: "distinct (map url (first_occurrences xs))"
proof (induction xs rule: first_occurrences.induct)
  case 1
  then show ?case by simp
next
  case (2 x xs)
  have "set (first_occurrences (filter (\<lambda>y. url y \<noteq> url x) xs))
          \<subseteq> set (filter (\<lambda>y. url y \<noteq> url x) xs)"
    by (rule set_first_occurrences)
  then have "url x \<notin> url ` set (first_occurrences (filter (\<lambda>y. url y \<noteq> url x) xs))"
    by auto
  with 2 show ?case by simp
qed

lemma dedupe_loop_first_occurrences:
  "dedupe_loop items seen unique =
     unique @ first_occurrences (filter (\<lambda>y. url y \<notin> seen) items)"
proof (induction items arbitrary: seen unique)
  case Nil
  then show ?case by simp
next
  case (Cons it items)
  have f: "filter (\<lambda>y. url y \<notin> insert (url it) seen) items =
           filter (\<lambda>y. url y \<noteq> url it) (filter (\<lambda>y. url y \<notin> seen) items)"
    by (induction items) auto
  show ?case
  proof (cases "url it \<in> seen")
    case True
    then show ?thesis using Cons.IH[of seen unique] by simp
  next
    case False
    then show ?thesis using Cons.IH[of "insert (url it) seen" "unique @ [it]"] f by simp
  qed
qed

lemma remove_duplicates_first_occurrences:
  "remove_duplicates items = first_occurrences items"
  by (simp add: remove_duplicates_def dedupe_loop_first_occurrences)

subsection \<open>Exclusion\<close>

lemma filter_items_filter:
  "filter_items w excl items = Inr kept \<Longrightarrow>
     kept = filter (\<lambda>it. keep_item w excl (url it) = Inr True) items"
  by (induction items arbitrary: kept) (auto split: sum.splits if_splits)

lemma filter_excluded_distinct:
  "filter_excluded w opts items = Inr kept \<Longrightarrow> distinct (map url items) \<Longrightarrow>
     distinct (map url kept)"
  by (auto simp: filter_excluded_def distinct_map_filter dest!: filter_items_filter split: if_splits)

subsection \<open>Sorting\<close>

lemma set_insert_sorted: "set (insert_sorted cmp x ys) = insert x (set ys)"
  by (induction ys) auto

lemma set_sort_with: "set (sort_with cmp xs) = set xs"
  by (induction xs) (auto simp: set_insert_sorted)

lemma distinct_map_insert_sorted:
  "distinct (map f (insert_sorted cmp x ys)) \<longleftrightarrow> f x \<notin> f ` set ys \<and> distinct (map f ys)"
  by (induction ys) (auto simp: set_insert_sorted)

lemma distinct_map_sort_with:
  "distinct (map f (sort_with cmp xs)) \<longleftrightarrow> distinct (map f xs)"
  by (induction xs) (auto simp: distinct_map_insert_sorted set_sort_with)

lemma length_insert_sorted: "length (insert_sorted cmp x ys) = Suc (length ys)"
  by (induction ys) auto

lemma length_sort_with: "length (sort_with cmp xs) = length xs"
  by (induction xs) (auto simp: length_insert_sorted)

lemma sorted_insert_sorted:
  assumes trans: "\<And>a b c. cmp a b \<le> 0 \<Longrightarrow> cmp b c \<le> 0 \<Longrightarrow> cmp a c \<le> 0"
    and total: "\<And>a b. 0 < cmp a b \<Longrightarrow> cmp b a \<le> 0"
  shows "sorted_wrt (\<lambda>a b. cmp a b \<le> 0) ys \<Longrightarrow>
         sorted_wrt (\<lambda>a b. cmp a b \<le> 0) (insert_sorted cmp x ys)"
proof (induction ys)
  case Nil
  then show ?case by simp
next
  case (Cons y ys)
  show ?case
  proof (cases "cmp x y \<le> 0")
    case True
    then have "\<forall>z \<in> set ys. cmp x z \<le> 0" using Cons.prems trans by auto
    then show ?thesis using True Cons.prems by simp
  next
    case False
    then have "cmp y x \<le> 0" using total[of x y] by simp
    then show ?thesis using False Cons by (auto simp: set_insert_sorted)
  qed
qed

lemma sorted_sort_with:
  assumes "\<And>a b c. cmp a b \<le> 0 \<Longrightarrow> cmp b c \<le> 0 \<Longrightarrow> cmp a c \<le> 0"
    and "\<And>a b. 0 < cmp a b \<Longrightarrow> cmp b a \<le> 0"
  shows "sorted_wrt (\<lambda>a b. cmp a b \<le> 0) (sort_with cmp xs)"
  by (induction xs) (auto intro: sorted_insert_sorted[OF assms])

subsection \<open>The result of buildUrls\<close>

lemma buildUrls_Inr:
  assumes "buildUrls w lims opts = Inr result"
  obtains walked ds filtered where
    "walk_files w lims opts
       (glob_sync w (glob_pattern (includePatterns opts)) (publicDir opts) (excludePatterns opts))
       ([], []) = Inr (walked, ds)"
    "filter_excluded w opts
       (remove_duplicates (merge_discovered lims opts ds (add_manual opts walked))) = Inr filtered"
    "result = sort_items w filtered"
  using assms by (auto simp: buildUrls_def Let_def split: sum.splits prod.splits)


lemma model_localeCompare_le0:
  "model_localeCompare a b \<le> 0 \<longleftrightarrow>
     map toLowerAscii a < map toLowerAscii b \<or> (map toLowerAscii a = map toLowerAscii b \<and> b \<le> a)"
  by (auto simp: model_localeCompare_def Let_def)

lemma model_localeCompare_consistent: "consistent_comparator model_localeCompare"
  unfolding consistent_comparator_def model_localeCompare_le0
  by (auto simp: model_localeCompare_def Let_def)

lemma localeCompare_site [simp]: "localeCompare (site dir found pages) = model_localeCompare"
  by (simp add: site_def)

text \<open>
  C1. The list that \<^verbatim>\<open>buildUrls\<close> returns holds no two items with the same URL
  string, for every configuration, every limit and every filesystem and runtime.
\<close>

theorem buildUrls_unique_urls:
  assumes "buildUrls w lims opts = Inr result"
  shows "distinct (map url result)"
proof -
  from assms obtain walked ds filtered where
    f: "filter_excluded w opts
          (remove_duplicates (merge_discovered lims opts ds (add_manual opts walked))) = Inr filtered"
    and r: "result = sort_items w filtered"
    by (rule buildUrls_Inr)
  have "distinct (map url (remove_duplicates (merge_discovered lims opts ds (add_manual opts walked))))"
    by (simp add: remove_duplicates_first_occurrences distinct_first_occurrences)
  with f have "distinct (map url filtered)" by (rule filter_excluded_distinct)
  then show ?thesis by (simp add: r sort_items_def distinct_map_sort_with)
qed

lemma buildUrls_single_manual:
  "buildUrls site_single default_limits options_manual =
     Inr [\<lparr>url = ''https://example.com/index.html'', lastmod = None, changefreq = Some ''weekly'',
           priority = Some (PriorityNumber (Num (4 / 5)))\<rparr>,
          \<lparr>url = ''https://example.com/x'', lastmod = None, changefreq = Some ''weekly'',
           priority = Some (PriorityOption ''0.8'')\<rparr>]"
  by code_simp

theorem buildUrls_unique_urls_witness:
  "buildUrls site_single default_limits options_manual =
     Inr [\<lparr>url = ''https://example.com/index.html'', lastmod = None, changefreq = Some ''weekly'',
           priority = Some (PriorityNumber (Num (4 / 5)))\<rparr>,
          \<lparr>url = ''https://example.com/x'', lastmod = None, changefreq = Some ''weekly'',
           priority = Some (PriorityOption ''0.8'')\<rparr>]
   \<and> distinct [''https://example.com/index.html'', ''https://example.com/x'']"
  using buildUrls_unique_urls[OF buildUrls_single_manual] buildUrls_single_manual by simp

text \<open>
  C8, as amended. The list that \<^verbatim>\<open>buildUrls\<close> returns is sorted ascending by URL
  under \<^verbatim>\<open>String.prototype.localeCompare\<close>, the comparator that the code passes to
  \<^verbatim>\<open>sort\<close>: for a consistent comparator, every item compares not above every later
  item, in particular every item not above its successor.
\<close>

theorem buildUrls_sorted_by_localeCompare:
  assumes "consistent_comparator (localeCompare w)"
    and "buildUrls w lims opts = Inr result"
  shows "sorted_wrt (\<lambda>a b. localeCompare w (url a) (url b) \<le> 0) result
       \<and> (\<forall>i. Suc i < length result \<longrightarrow>
              localeCompare w (url (result ! i)) (url (result ! Suc i)) \<le> 0)"
proof -
  let ?cmp = "\<lambda>a b. localeCompare w (url a) (url b)"
  from assms(2) obtain walked ds filtered where r: "result = sort_items w filtered"
    by (rule buildUrls_Inr)
  have t: "\<And>a b c. ?cmp a b \<le> 0 \<Longrightarrow> ?cmp b c \<le> 0 \<Longrightarrow> ?cmp a c \<le> 0"
    using assms(1) unfolding consistent_comparator_def by blast
  have l: "\<And>a b. 0 < ?cmp a b \<Longrightarrow> ?cmp b a \<le> 0"
    using assms(1) unfolding consistent_comparator_def by blast
  have s: "sorted_wrt (\<lambda>a b. ?cmp a b \<le> 0) result"
    unfolding r sort_items_def by (rule sorted_sort_with[of ?cmp, OF t l])
  then have "\<forall>i. Suc i < length result \<longrightarrow> ?cmp (result ! i) (result ! Suc i) \<le> 0"
    by (simp add: sorted_wrt_iff_nth_less)
  with s show ?thesis by simp
qed

lemma buildUrls_mixed_case:
  "buildUrls site_mixed_case default_limits default_options =
     Inr [plain_item ''https://example.com/a.html'', plain_item ''https://example.com/B.html'']"
  by code_simp

theorem buildUrls_sorted_by_localeCompare_witness:
  "consistent_comparator (localeCompare site_mixed_case)
   \<and> buildUrls site_mixed_case default_limits default_options =
       Inr [plain_item ''https://example.com/a.html'', plain_item ''https://example.com/B.html'']
   \<and> localeCompare site_mixed_case ''https://example.com/a.html'' ''https://example.com/B.html'' \<le> 0"
proof -
  have c: "consistent_comparator (localeCompare site_mixed_case)"
    by (simp add: site_mixed_case_def model_localeCompare_consistent)
  from buildUrls_sorted_by_localeCompare[OF c buildUrls_mixed_case]
  show ?thesis using c buildUrls_mixed_case by (simp add: plain_item_def)
qed

text \<open>
  The claim as stated fails: for the pages \<^verbatim>\<open>B.html\<close> and \<^verbatim>\<open>a.html\<close> the returned
  list has \<^verbatim>\<open>a.html\<close> first, and in the order of the code units
  \<^verbatim>\<open>https://example.com/a.html\<close> is above \<^verbatim>\<open>https://example.com/B.html\<close>.
\<close>

theorem buildUrls_plain_order_counterexample:
  "buildUrls site_mixed_case default_limits default_options =
     Inr [plain_item ''https://example.com/a.html'', plain_item ''https://example.com/B.html'']
   \<and> \<not> (url (plain_item ''https://example.com/a.html'') \<le> url (plain_item ''https://example.com/B.html''))"
proof -
  have "\<not> (url (plain_item ''https://example.com/a.html'') \<le> url (plain_item ''https://example.com/B.html''))"
    by code_simp
  with buildUrls_mixed_case show ?thesis by simp
qed


subsection \<open>Exclusion patterns\<close>

text \<open>
  C4 fails on the code. The translation replaces \<^verbatim>\<open>*\<close> and \<^verbatim>\<open>?\<close> and leaves every
  other character of the entry to the regular expression, so a dot of the entry matches
  any character. With the default entries the manual URL
  \<^verbatim>\<open>https://example.com/sitemap/faq-xml\<close> is removed by \<^verbatim>\<open>*/sitemap*.xml\<close>, though
  it equals no entry and matches none under the translation that the claim describes.
\<close>

theorem exclude_dot_matches_any_character:
  "excludeUrls options_faq = [''*/sitemap*.xml'', ''*/sitemap*.txt'', ''*/sitemap*.xml.gz'']
   \<and> additionalUrls options_faq = [''https://example.com/sitemap/faq-xml'']
   \<and> wildcards_to_regex ''*/sitemap*.xml'' = ''.*/sitemap.*.xml''
   \<and> keep_item site_single (excludeUrls options_faq) ''https://example.com/sitemap/faq-xml'' = Inr False
   \<and> \<not> spec_excluded (excludeUrls options_faq) ''https://example.com/sitemap/faq-xml''
   \<and> buildUrls site_single default_limits options_faq
       = Inr [plain_item ''https://example.com/index.html'']"
  by code_simp

subsection \<open>Canonical URLs\<close>

text \<open>
  C6, as amended. When canonical parsing is enabled and an HTML file declares a
  relative canonical href, the URL of its item is that href, without one leading
  slash, joined to the public directory (the site root) and turned from a filesystem
  path into a URL by \<^verbatim>\<open>normalizePathToUrl\<close>; the directory of the file plays no part.
\<close>

theorem relative_canonical_against_public_dir:
  assumes "toLowerCase (path_extname w f) \<in> {''.html'', ''.htm''}"
    and "parseCanonical opts"
    and "normalizeUrl w (baseUrl opts) (''/'' @ slashes f) = Some fullUrl"
    and "statSync w (path_join w (publicDir opts) f) = Some st"
    and "readHtml w (path_join w (publicDir opts) f) = Some doc"
    and "canonical_href doc = Some href"
    and "href \<noteq> []"
    and "\<not> is_http href"
    and "normalizePathToUrl w (baseUrl opts) (publicDir opts)
           (path_join w (publicDir opts) (strip_leading (CHR ''/'') href)) = Some u"
  shows "\<exists>it ds'. walk_file w lims opts f (items, ds) = Inr (items @ [it], ds') \<and> url it = u"
proof -
  from assms(1) have e: "toLowerCase (path_extname w f) \<notin> set skipExts"
    "toLowerCase (path_extname w f) \<in> set [''.html'', ''.htm'']"
    by (auto simp: skipExts_def)
  have p: "fst (parse_html_file w lims opts (path_join w (publicDir opts) f) fullUrl ds) = u"
    using assms(5-9) by (simp add: parse_html_file_def Let_def truthy_def)
  show ?thesis
    using e assms(2-4) p
    by (simp add: walk_file_def Let_def split_beta del: set_simps)
qed

lemma site_blog_facts:
  "toLowerCase (path_extname site_blog ''blog/post.html'') \<in> {''.html'', ''.htm''}"
  "parseCanonical default_options"
  "normalizeUrl site_blog (baseUrl default_options) (''/'' @ slashes ''blog/post.html'')
     = Some ''https://example.com/blog/post.html''"
  "statSync site_blog (path_join site_blog (publicDir default_options) ''blog/post.html'') = Some site_stat"
  "readHtml site_blog (path_join site_blog (publicDir default_options) ''blog/post.html'') = Some blog_post"
  "canonical_href blog_post = Some ''canon.html''"
  "''canon.html'' \<noteq> []"
  "\<not> is_http ''canon.html''"
  "normalizePathToUrl site_blog (baseUrl default_options) (publicDir default_options)
     (path_join site_blog (publicDir default_options) (strip_leading (CHR ''/'') ''canon.html''))
     = Some ''https://example.com/canon.html''"
  by code_simp+

theorem relative_canonical_against_public_dir_witness:
  "toLowerCase (path_extname site_blog ''blog/post.html'') \<in> {''.html'', ''.htm''}
   \<and> parseCanonical default_options
   \<and> normalizeUrl site_blog (baseUrl default_options) (''/'' @ slashes ''blog/post.html'')
       = Some ''https://example.com/blog/post.html''
   \<and> statSync site_blog (path_join site_blog (publicDir default_options) ''blog/post.html'') = Some site_stat
   \<and> readHtml site_blog (path_join site_blog (publicDir default_options) ''blog/post.html'') = Some blog_post
   \<and> canonical_href blog_post = Some ''canon.html''
   \<and> ''canon.html'' \<noteq> []
   \<and> \<not> is_http ''canon.html''
   \<and> normalizePathToUrl site_blog (baseUrl default_options) (publicDir default_options)
       (path_join site_blog (publicDir default_options) (strip_leading (CHR ''/'') ''canon.html''))
       = Some ''https://example.com/canon.html''
   \<and> (\<exists>it ds'. walk_file site_blog default_limits default_options ''blog/post.html'' ([], [])
                  = Inr ([] @ [it], ds') \<and> url it = ''https://example.com/canon.html'')"
  by (intro conjI site_blog_facts
        relative_canonical_against_public_dir[OF site_blog_facts, of default_limits "[]" "[]"])

text \<open>
  The claim as stated fails: for \<^verbatim>\<open>blog/post.html\<close> with the canonical href
  \<^verbatim>\<open>canon.html\<close> the item's URL is \<^verbatim>\<open>https://example.com/canon.html\<close>, while
  resolving against the containing directory gives
  \<^verbatim>\<open>https://example.com/blog/canon.html\<close>.
\<close>

theorem canonical_containing_directory_counterexample:
  "buildUrls site_blog default_limits default_options
     = Inr [plain_item ''https://example.com/canon.html'']
   \<and> spec_canonical_url site_blog posix_dirname default_options ''blog/post.html'' ''canon.html''
     = Some ''https://example.com/blog/canon.html''"
  by code_simp


subsection \<open>The discovery cap\<close>

lemma discover_anchors_prefix: "prefix ds (discover_anchors w lims opts hs ds)"
proof (induction hs arbitrary: ds)
  case Nil
  then show ?case by simp
next
  case (Cons h hs)
  have a: "prefix ds (discover_anchors w lims opts hs ds)" by (rule Cons.IH)
  have b: "\<And>u. prefix ds (discover_anchors w lims opts hs (ds @ [u]))"
    using Cons.IH[of "ds @ [u]" for u] by (meson append_prefixD)
  show ?case using a b by (simp add: Let_def split: option.splits)
qed

lemma discover_anchors_distinct:
  "distinct ds \<Longrightarrow> distinct (discover_anchors w lims opts hs ds)"
proof (induction hs arbitrary: ds)
  case Nil
  then show ?case by simp
next
  case (Cons h hs)
  have a: "distinct (discover_anchors w lims opts hs ds)" using Cons by simp
  have b: "\<And>u. u \<notin> set ds \<Longrightarrow> distinct (discover_anchors w lims opts hs (ds @ [u]))"
    using Cons by simp
  show ?case using a b Cons.prems by (simp add: Let_def split: option.splits)
qed

lemma discover_anchors_cap:
  assumes "MAX_DISCOVERED_LINKS lims = Some k"
  shows "discover_anchors w lims opts hs (take (nat k) ds) =
         take (nat k) (discover_anchors w (uncapped lims) opts hs ds)"
proof (induction hs arbitrary: ds)
  case Nil
  then show ?case by simp
next
  case (Cons h hs)
  show ?case
  proof (cases "nat k \<le> length ds")
    case True
    then have r: "reached (length (take (nat k) ds)) (MAX_DISCOVERED_LINKS lims)"
      using assms by (simp add: reached_def min_def)
    from discover_anchors_prefix[of ds w "uncapped lims" opts "h # hs"]
    obtain xs where x: "discover_anchors w (uncapped lims) opts (h # hs) ds = ds @ xs"
      by (auto simp: prefix_def)
    have "take (nat k) (ds @ xs) = take (nat k) ds" using True by simp
    then show ?thesis using r x by simp
  next
    case False
    then have t: "take (nat k) ds = ds" by simp
    have r: "\<not> reached (length ds) (MAX_DISCOVERED_LINKS lims)"
      using False assms by (simp add: reached_def)
    have r': "\<not> reached (length ds) (MAX_DISCOVERED_LINKS (uncapped lims))"
      by (simp add: reached_def)
    have a: "discover_anchors w lims opts hs ds =
             take (nat k) (discover_anchors w (uncapped lims) opts hs ds)"
      using Cons.IH[of ds] t by simp
    have b: "\<And>u. discover_anchors w lims opts hs (ds @ [u]) =
             take (nat k) (discover_anchors w (uncapped lims) opts hs (ds @ [u]))"
    proof -
      fix u
      have "take (nat k) (ds @ [u]) = ds @ [u]" using False by simp
      then show "discover_anchors w lims opts hs (ds @ [u]) =
             take (nat k) (discover_anchors w (uncapped lims) opts hs (ds @ [u]))"
        using Cons.IH[of "ds @ [u]"] by simp
    qed
    show ?thesis
      unfolding t using r r' a b t
      by (simp add: Let_def split: option.splits)
  qed
qed

lemma parse_html_file_cap:
  assumes "MAX_DISCOVERED_LINKS lims = Some k"
    and "parse_html_file w (uncapped lims) opts p fullUrl ds = (u, ds')"
  shows "parse_html_file w lims opts p fullUrl (take (nat k) ds) = (u, take (nat k) ds')"
  using assms(2) discover_anchors_cap[OF assms(1), of w opts _ ds]
  by (auto simp: parse_html_file_def Let_def split: option.splits if_splits)

lemma parse_html_file_distinct:
  "parse_html_file w lims opts p fullUrl ds = (u, ds') \<Longrightarrow> distinct ds \<Longrightarrow> distinct ds'"
  by (auto simp: parse_html_file_def Let_def discover_anchors_distinct
      split: option.splits if_splits)

lemma walk_file_cap:
  assumes "MAX_DISCOVERED_LINKS lims = Some k"
    and "walk_file w (uncapped lims) opts f (items, ds) = Inr (items', ds')"
  shows "walk_file w lims opts f (items, take (nat k) ds) = Inr (items', take (nat k) ds')"
  using assms(2) parse_html_file_cap[OF assms(1), of w opts _ _ ds]
  by (auto simp: walk_file_def Let_def split: option.splits if_splits prod.splits)

lemma walk_file_distinct:
  "walk_file w lims opts f (items, ds) = Inr (items', ds') \<Longrightarrow> distinct ds \<Longrightarrow> distinct ds'"
  by (auto simp: walk_file_def Let_def split: option.splits if_splits prod.splits
      dest: parse_html_file_distinct)

lemma walk_files_cap:
  assumes "MAX_DISCOVERED_LINKS lims = Some k"
  shows "walk_files w (uncapped lims) opts files (items, ds) = Inr (items', ds') \<Longrightarrow>
         walk_files w lims opts files (items, take (nat k) ds) = Inr (items', take (nat k) ds')"
proof (induction files arbitrary: items ds)
  case Nil
  then show ?case by simp
next
  case (Cons f files)
  from Cons.prems obtain items1 ds1 where
    s: "walk_file w (uncapped lims) opts f (items, ds) = Inr (items1, ds1)"
    and r: "walk_files w (uncapped lims) opts files (items1, ds1) = Inr (items', ds')"
    by (auto split: sum.splits)
  from walk_file_cap[OF assms s] Cons.IH[OF r] show ?case by simp
qed

lemma walk_files_distinct:
  "walk_files w lims opts files (items, ds) = Inr (items', ds') \<Longrightarrow> distinct ds \<Longrightarrow> distinct ds'"
proof (induction files arbitrary: items ds)
  case Nil
  then show ?case by simp
next
  case (Cons f files)
  from Cons.prems(1) obtain items1 ds1 where
    s: "walk_file w lims opts f (items, ds) = Inr (items1, ds1)"
    and r: "walk_files w lims opts files (items1, ds1) = Inr (items', ds')"
    by (auto split: sum.splits)
  from walk_file_distinct[OF s Cons.prems(2)] Cons.IH[OF r] show ?case by simp
qed


text \<open>Without link discovery the walk leaves the discovery set as it is.\<close>

lemma parse_html_file_no_discovery:
  "\<not> discoverLinks opts \<Longrightarrow> parse_html_file w lims opts p fullUrl ds = (u, ds') \<Longrightarrow> ds' = ds"
  by (auto simp: parse_html_file_def Let_def split: option.splits if_splits)

lemma walk_file_no_discovery:
  "\<not> discoverLinks opts \<Longrightarrow> walk_file w lims opts f (items, ds) = Inr (items', ds') \<Longrightarrow> ds' = ds"
  by (auto simp: walk_file_def Let_def split: option.splits if_splits prod.splits
      dest: parse_html_file_no_discovery)

lemma walk_files_no_discovery:
  "\<not> discoverLinks opts \<Longrightarrow> walk_files w lims opts files (items, ds) = Inr (items', ds') \<Longrightarrow>
     ds' = ds"
proof (induction files arbitrary: items ds)
  case Nil
  then show ?case by simp
next
  case (Cons f files)
  from Cons.prems(2) obtain items1 ds1 where
    s: "walk_file w lims opts f (items, ds) = Inr (items1, ds1)"
    and r: "walk_files w lims opts files (items1, ds1) = Inr (items', ds')"
    by (auto split: sum.splits)
  from walk_file_no_discovery[OF Cons.prems(1) s] Cons.IH[OF Cons.prems(1) r] show ?case by simp
qed

subsection \<open>Merge order\<close>

lemma allowance_reached: "reached used cap \<Longrightarrow> allowance cap used n = 0"
  by (auto simp: reached_def allowance_def split: option.splits)

lemma allowance_zero: "allowance cap used 0 = 0"
  by (simp add: allowance_def split: option.splits)

lemma allowance_step:
  "\<not> reached used cap \<Longrightarrow> allowance cap used (Suc n) = Suc (allowance cap (Suc used) n)"
  by (auto simp: reached_def allowance_def min_def split: option.splits)

lemma new_links_Cons:
  "new_links items (u # us) =
     (if u \<in> set (map url items) then new_links items us else u # new_links items us)"
  by (simp add: new_links_def)

lemma new_links_snoc:
  "u \<notin> set us \<Longrightarrow> new_links (items @ [extra_item opts u]) us = new_links items us"
  by (auto simp: new_links_def extra_item_def intro: filter_cong)

lemma merge_loop_exact:
  "distinct us \<Longrightarrow>
   merge_loop lims opts us a items =
     items @ map (extra_item opts)
       (take (allowance (MAX_TOTAL_URLS lims) (length items)
                (allowance (MAX_DISCOVERED_LINKS lims) a (length (new_links items us))))
          (new_links items us))"
proof (induction us arbitrary: a items)
  case Nil
  then show ?case by (simp add: new_links_def)
next
  case (Cons u us)
  let ?T = "MAX_TOTAL_URLS lims" and ?K = "MAX_DISCOVERED_LINKS lims"
  from Cons.prems have d: "distinct us" and n: "u \<notin> set us" by simp_all
  consider (total) "reached (length items) ?T"
    | (count) "\<not> reached (length items) ?T" "reached a ?K"
    | (add) "\<not> reached (length items) ?T" "\<not> reached a ?K" "u \<notin> set (map url items)"
    | (skip) "\<not> reached (length items) ?T" "\<not> reached a ?K" "u \<in> set (map url items)"
    by blast
  then show ?case
  proof cases
    case total
    then show ?thesis by (simp add: allowance_reached)
  next
    case count
    then show ?thesis by (simp add: allowance_reached allowance_zero)
  next
    case add
    let ?nl = "new_links items us"
    have i: "merge_loop lims opts us (a + 1) (items @ [extra_item opts u]) =
               (items @ [extra_item opts u]) @ map (extra_item opts)
                 (take (allowance ?T (Suc (length items)) (allowance ?K (Suc a) (length ?nl))) ?nl)"
      using Cons.IH[OF d, of "a + 1" "items @ [extra_item opts u]"] new_links_snoc[OF n, of items opts]
      by simp
    have s: "allowance ?T (length items) (allowance ?K a (Suc (length ?nl))) =
             Suc (allowance ?T (Suc (length items)) (allowance ?K (Suc a) (length ?nl)))"
      using add(1,2) by (simp add: allowance_step)
    have e: "\<not> (\<exists>it \<in> set items. url it = u)" using add(3) by auto
    show ?thesis
      using add(1,2) e i s add(3) by (simp add: new_links_Cons)
  next
    case skip
    have e: "\<exists>it \<in> set items. url it = u" using skip(3) by auto
    show ?thesis
      using skip(1,2) e Cons.IH[OF d, of a items] skip(3) by (simp add: new_links_Cons)
  qed
qed

lemma merge_discovered_exact:
  assumes "distinct ds" and "discoverLinks opts \<or> ds = []"
  shows "merge_discovered lims opts ds items =
           items @ map (extra_item opts) (merged_links lims items ds)"
proof (cases "ds = []")
  case True
  then show ?thesis by (simp add: merge_discovered_def merged_links_def new_links_def)
next
  case False
  with assms(2) have "discoverLinks opts" by simp
  then show ?thesis
    using False merge_loop_exact[OF assms(1), of lims opts 0 items]
    by (simp add: merge_discovered_def merged_links_def)
qed


text \<open>
  The list after the merge, and the result computed from it, for a walk that has
  returned the items \<open>walked\<close> and the discovery set \<open>ds\<close>.
\<close>

lemma buildUrls_merged:
  assumes "walk_files w lims opts
             (glob_sync w (glob_pattern (includePatterns opts)) (publicDir opts) (excludePatterns opts))
             ([], []) = Inr (walked, ds)"
  shows "merge_discovered lims opts ds (add_manual opts walked)
           = walked @ map (extra_item opts) (additionalUrls opts)
               @ map (extra_item opts)
                   (merged_links lims (walked @ map (extra_item opts) (additionalUrls opts)) ds)"
    and "buildUrls w lims opts =
           (case filter_excluded w opts
                   (first_occurrences
                      (merge_discovered lims opts ds (add_manual opts walked))) of
              Inl e \<Rightarrow> Inl e | Inr filtered \<Rightarrow> Inr (sort_items w filtered))"
proof -
  have d: "distinct ds" using walk_files_distinct[OF assms] by simp
  have l: "discoverLinks opts \<or> ds = []"
    using walk_files_no_discovery[OF _ assms] by auto
  have a: "add_manual opts walked = walked @ map (extra_item opts) (additionalUrls opts)"
    by (simp add: add_manual_def)
  show "merge_discovered lims opts ds (add_manual opts walked)
           = walked @ map (extra_item opts) (additionalUrls opts)
               @ map (extra_item opts)
                   (merged_links lims (walked @ map (extra_item opts) (additionalUrls opts)) ds)"
    unfolding a
    using merge_discovered_exact[OF d l, of lims "walked @ map (extra_item opts) (additionalUrls opts)"]
    by simp
  show "buildUrls w lims opts =
           (case filter_excluded w opts
                   (first_occurrences
                      (merge_discovered lims opts ds (add_manual opts walked))) of
              Inl e \<Rightarrow> Inl e | Inr filtered \<Rightarrow> Inr (sort_items w filtered))"
    using assms by (simp add: buildUrls_def Let_def remove_duplicates_first_occurrences)
qed

text \<open>
  C5. When the walk has returned the items \<open>walked\<close> and the discovery set \<open>ds\<close>, the
  candidates are merged in the order walked items, manual URLs, discovered links: the
  merge yields the walked items, then one item for each manual URL, then one item for
  each discovered link that is not yet the URL of an item, as far as the caps admit.
  Deduplication keeps the first occurrence of each URL in that order, the returned
  collection is computed from these first occurrences, and every manual and
  discovered item carries the configured changefreq and priority.
\<close>

theorem merge_order_and_precedence:
  fixes w lims opts walked ds
  defines "manual \<equiv> map (extra_item opts) (additionalUrls opts)"
    and "discovered \<equiv>
           map (extra_item opts)
             (merged_links lims (walked @ map (extra_item opts) (additionalUrls opts)) ds)"
  assumes "walk_files w lims opts
             (glob_sync w (glob_pattern (includePatterns opts)) (publicDir opts) (excludePatterns opts))
             ([], []) = Inr (walked, ds)"
  shows "merge_discovered lims opts ds (add_manual opts walked) = walked @ manual @ discovered
       \<and> remove_duplicates (walked @ manual @ discovered)
           = first_occurrences (walked @ manual @ discovered)
       \<and> buildUrls w lims opts =
           (case filter_excluded w opts (first_occurrences (walked @ manual @ discovered)) of
              Inl e \<Rightarrow> Inl e | Inr filtered \<Rightarrow> Inr (sort_items w filtered))
       \<and> (\<forall>it \<in> set (manual @ discovered).
              changefreq it = opt_changefreq opts
              \<and> priority it = map_option PriorityOption (opt_priority opts))"
proof -
  have m: "merge_discovered lims opts ds (add_manual opts walked) = walked @ manual @ discovered"
    unfolding manual_def discovered_def by (rule buildUrls_merged(1)[OF assms(3)])
  have r: "remove_duplicates (walked @ manual @ discovered)
           = first_occurrences (walked @ manual @ discovered)"
    by (rule remove_duplicates_first_occurrences)
  have b: "buildUrls w lims opts =
           (case filter_excluded w opts (first_occurrences (walked @ manual @ discovered)) of
              Inl e \<Rightarrow> Inl e | Inr filtered \<Rightarrow> Inr (sort_items w filtered))"
    using buildUrls_merged(2)[OF assms(3)] unfolding m .
  have e: "\<forall>it \<in> set (manual @ discovered).
              changefreq it = opt_changefreq opts
              \<and> priority it = map_option PriorityOption (opt_priority opts)"
    by (auto simp: manual_def discovered_def extra_item_def)
  show ?thesis by (intro conjI m r b e)
qed

lemma walk_files_hub:
  "walk_files site_hub default_limits options_hub
     (glob_sync site_hub (glob_pattern (includePatterns options_hub)) (publicDir options_hub)
        (excludePatterns options_hub))
     ([], []) = Inr ([hub_index], [''https://example.com/a.html'', ''https://example.com/b.html''])"
  by code_simp

lemma site_hub_manual:
  "additionalUrls options_hub = [''https://example.com/index.html'', ''https://example.com/a.html'']"
  by (simp add: options_hub_def)

lemma site_hub_merged_links:
  "merged_links default_limits
     ([hub_index] @ map (extra_item options_hub)
                      [''https://example.com/index.html'', ''https://example.com/a.html''])
     [''https://example.com/a.html'', ''https://example.com/b.html'']
   = [''https://example.com/b.html'']"
  by (simp add: merged_links_def allowance_def new_links_def default_limits_def hub_index_def
        extra_item_def)

lemma site_hub_result:
  "(case filter_excluded site_hub options_hub
           (first_occurrences
              ([hub_index]
               @ map (extra_item options_hub)
                   [''https://example.com/index.html'', ''https://example.com/a.html'']
               @ map (extra_item options_hub) [''https://example.com/b.html''])) of
      Inl e \<Rightarrow> Inl e | Inr filtered \<Rightarrow> Inr (sort_items site_hub filtered))
   = Inr [extra_item options_hub ''https://example.com/a.html'',
          extra_item options_hub ''https://example.com/b.html'', hub_index]"
  by code_simp

text \<open>
  On \<open>site_hub\<close> the walk finds \<^verbatim>\<open>index.html\<close> and discovers \<^verbatim>\<open>a.html\<close> and
  \<^verbatim>\<open>b.html\<close>; the manual URLs are those of \<^verbatim>\<open>index.html\<close> and \<^verbatim>\<open>a.html\<close>. The
  merge appends the item of \<^verbatim>\<open>b.html\<close> alone, and in the result the walked item of
  \<^verbatim>\<open>index.html\<close> has won over the manual one and the manual item of \<^verbatim>\<open>a.html\<close>
  over the discovered link.
\<close>

theorem merge_order_and_precedence_witness:
  "walk_files site_hub default_limits options_hub
     (glob_sync site_hub (glob_pattern (includePatterns options_hub)) (publicDir options_hub)
        (excludePatterns options_hub))
     ([], []) = Inr ([hub_index], [''https://example.com/a.html'', ''https://example.com/b.html''])
   \<and> merge_discovered default_limits options_hub
        [''https://example.com/a.html'', ''https://example.com/b.html'']
        (add_manual options_hub [hub_index])
       = [hub_index]
         @ map (extra_item options_hub)
             [''https://example.com/index.html'', ''https://example.com/a.html'']
         @ map (extra_item options_hub) [''https://example.com/b.html'']
   \<and> buildUrls site_hub default_limits options_hub
       = Inr [extra_item options_hub ''https://example.com/a.html'',
              extra_item options_hub ''https://example.com/b.html'', hub_index]"
proof -
  note t = merge_order_and_precedence[OF walk_files_hub,
      unfolded site_hub_manual site_hub_merged_links site_hub_result]
  show ?thesis
    by (intro conjI walk_files_hub conjunct1[OF t] conjunct1[OF conjunct2[OF conjunct2[OF t]]])
qed

subsection \<open>The discovery cap and the returned items\<close>

text \<open>
  C7, as amended. Let the walk without a discovery cap return the items \<open>walked\<close> and
  the discovery set \<open>D\<close>, the distinct discoverable links in the order in which they
  are found. With the cap \<open>K \<ge> 0\<close> the walk returns the same walked items and, as its
  discovery set, the first \<open>K\<close> elements of \<open>D\<close>: exactly \<open>K\<close> URLs when \<open>D\<close> has more
  than \<open>K\<close>, since the cap is checked before each addition. The merge yields the walked
  items, then the manual items, then as discovered items those URLs of the capped
  discovery set that are not already the URL of a walked or manual item, in their
  order and as many as the total-URL cap leaves room for; these are at most \<open>K\<close>. The
  returned list is computed from this merged list by deduplication, the exclusion
  patterns and the sort, so a discovered item may still be excluded, and no walked
  or manual item is removed because of the discovery cap.
\<close>

theorem discovery_cap:
  fixes w lims opts walked D k
  defines "found \<equiv> take (nat k) D"
    and "manual \<equiv> map (extra_item opts) (additionalUrls opts)"
    and "discovered \<equiv>
           map (extra_item opts)
             (take (allowance (MAX_TOTAL_URLS lims)
                      (length (walked @ map (extra_item opts) (additionalUrls opts)))
                      (length (new_links (walked @ map (extra_item opts) (additionalUrls opts))
                                 (take (nat k) D))))
                (new_links (walked @ map (extra_item opts) (additionalUrls opts))
                   (take (nat k) D)))"
  assumes "MAX_DISCOVERED_LINKS lims = Some k"
    and "0 \<le> k"
    and "walk_files w (uncapped lims) opts
           (glob_sync w (glob_pattern (includePatterns opts)) (publicDir opts) (excludePatterns opts))
           ([], []) = Inr (walked, D)"
  shows "walk_files w lims opts
           (glob_sync w (glob_pattern (includePatterns opts)) (publicDir opts) (excludePatterns opts))
           ([], []) = Inr (walked, found)
       \<and> distinct D
       \<and> (k < int (length D) \<longrightarrow> int (length found) = k)
       \<and> merge_discovered lims opts found (add_manual opts walked) = walked @ manual @ discovered
       \<and> int (length discovered) \<le> k
       \<and> buildUrls w lims opts =
           (case filter_excluded w opts (first_occurrences (walked @ manual @ discovered)) of
              Inl e \<Rightarrow> Inl e | Inr filtered \<Rightarrow> Inr (sort_items w filtered))"
proof -
  let ?base = "walked @ map (extra_item opts) (additionalUrls opts)"
  let ?fresh = "new_links ?base (take (nat k) D)"
  have a: "walk_files w lims opts
           (glob_sync w (glob_pattern (includePatterns opts)) (publicDir opts) (excludePatterns opts))
           ([], []) = Inr (walked, found)"
    unfolding found_def using walk_files_cap[OF assms(4) assms(6)] by simp
  have b: "distinct D" using walk_files_distinct[OF assms(6)] by simp
  have c: "k < int (length D) \<longrightarrow> int (length found) = k"
    using assms(5) by (auto simp: found_def)
  have f: "length ?fresh \<le> nat k"
    unfolding new_links_def
    by (rule order_trans[OF length_filter_le]) simp
  have g: "allowance (MAX_DISCOVERED_LINKS lims) 0 (length ?fresh) = length ?fresh"
    using f assms(4) by (simp add: allowance_def)
  have h: "merged_links lims ?base (take (nat k) D)
           = take (allowance (MAX_TOTAL_URLS lims) (length ?base) (length ?fresh)) ?fresh"
    unfolding merged_links_def g ..
  have d: "merge_discovered lims opts found (add_manual opts walked) = walked @ manual @ discovered"
    using buildUrls_merged(1)[OF a] unfolding found_def manual_def discovered_def h .
  have "length discovered \<le> length ?fresh" by (simp add: discovered_def)
  then have "length discovered \<le> nat k" using f by (rule order_trans)
  then have e: "int (length discovered) \<le> k" using assms(5) by linarith
  have r: "buildUrls w lims opts =
           (case filter_excluded w opts (first_occurrences (walked @ manual @ discovered)) of
              Inl e \<Rightarrow> Inl e | Inr filtered \<Rightarrow> Inr (sort_items w filtered))"
    using buildUrls_merged(2)[OF a] unfolding d .
  show ?thesis by (intro conjI a b c d e r)
qed

lemma site_sitemap_link_cap: "MAX_DISCOVERED_LINKS cap_two = Some 2"
  by (simp add: cap_two_def)

lemma site_sitemap_link_walk:
  "walk_files site_sitemap_link (uncapped cap_two) options_index_only
     (glob_sync site_sitemap_link (glob_pattern (includePatterns options_index_only))
        (publicDir options_index_only) (excludePatterns options_index_only))
     ([], [])
     = Inr ([plain_item ''https://example.com/index.html''],
            [''https://example.com/a.html'', ''https://example.com/sitemap.xml'',
             ''https://example.com/b.html''])"
  by code_simp

lemma site_sitemap_link_found:
  "take (nat 2)
     [''https://example.com/a.html'', ''https://example.com/sitemap.xml'',
      ''https://example.com/b.html'']
   = [''https://example.com/a.html'', ''https://example.com/sitemap.xml'']"
  by simp

lemma site_sitemap_link_merged:
  "[plain_item ''https://example.com/index.html'']
   @ map (extra_item options_index_only) (additionalUrls options_index_only)
   @ map (extra_item options_index_only)
       (take (allowance (MAX_TOTAL_URLS cap_two)
                (length ([plain_item ''https://example.com/index.html'']
                         @ map (extra_item options_index_only) (additionalUrls options_index_only)))
                (length (new_links
                           ([plain_item ''https://example.com/index.html'']
                            @ map (extra_item options_index_only)
                                (additionalUrls options_index_only))
                           [''https://example.com/a.html'', ''https://example.com/sitemap.xml''])))
          (new_links
             ([plain_item ''https://example.com/index.html'']
              @ map (extra_item options_index_only) (additionalUrls options_index_only))
             [''https://example.com/a.html'', ''https://example.com/sitemap.xml'']))
   = [plain_item ''https://example.com/index.html'', plain_item ''https://example.com/a.html'',
      plain_item ''https://example.com/sitemap.xml'']"
  by (simp add: options_index_only_def default_options_def extra_item_def new_links_def
        allowance_def cap_two_def plain_item_def)

lemma site_sitemap_link_result:
  "(case filter_excluded site_sitemap_link options_index_only
           (first_occurrences
              [plain_item ''https://example.com/index.html'',
               plain_item ''https://example.com/a.html'',
               plain_item ''https://example.com/sitemap.xml'']) of
      Inl e \<Rightarrow> Inl e | Inr filtered \<Rightarrow> Inr (sort_items site_sitemap_link filtered))
   = Inr [plain_item ''https://example.com/a.html'', plain_item ''https://example.com/index.html'']"
  by code_simp

text \<open>
  On \<open>site_sitemap_link\<close> with the cap 2 the discovery set holds the first two of the
  three links, the merge appends an item for each of the two, and the exclusion
  patterns then remove the item of \<^verbatim>\<open>sitemap.xml\<close>.
\<close>

theorem discovery_cap_witness:
  "MAX_DISCOVERED_LINKS cap_two = Some 2
   \<and> (0::int) \<le> 2
   \<and> walk_files site_sitemap_link (uncapped cap_two) options_index_only
       (glob_sync site_sitemap_link (glob_pattern (includePatterns options_index_only))
          (publicDir options_index_only) (excludePatterns options_index_only))
       ([], [])
       = Inr ([plain_item ''https://example.com/index.html''],
              [''https://example.com/a.html'', ''https://example.com/sitemap.xml'',
               ''https://example.com/b.html''])
   \<and> walk_files site_sitemap_link cap_two options_index_only
       (glob_sync site_sitemap_link (glob_pattern (includePatterns options_index_only))
          (publicDir options_index_only) (excludePatterns options_index_only))
       ([], [])
       = Inr ([plain_item ''https://example.com/index.html''],
              [''https://example.com/a.html'', ''https://example.com/sitemap.xml''])
   \<and> merge_discovered cap_two options_index_only
        [''https://example.com/a.html'', ''https://example.com/sitemap.xml'']
        (add_manual options_index_only [plain_item ''https://example.com/index.html''])
       = [plain_item ''https://example.com/index.html'', plain_item ''https://example.com/a.html'',
          plain_item ''https://example.com/sitemap.xml'']
   \<and> buildUrls site_sitemap_link cap_two options_index_only
       = Inr [plain_item ''https://example.com/a.html'',
              plain_item ''https://example.com/index.html'']"
proof -
  have z: "(0::int) \<le> 2" by simp
  note t = discovery_cap[OF site_sitemap_link_cap z site_sitemap_link_walk,
      unfolded site_sitemap_link_found site_sitemap_link_merged site_sitemap_link_result]
  show ?thesis
    by (intro conjI site_sitemap_link_cap z site_sitemap_link_walk conjunct1[OF t]
          conjunct1[OF conjunct2[OF conjunct2[OF conjunct2[OF t]]]]
          conjunct2[OF conjunct2[OF conjunct2[OF conjunct2[OF conjunct2[OF t]]]]])
qed

text \<open>
  The claim as stated fails: with the cap 2 and three discoverable links the discovery
  set holds two URLs, one of them is removed by the default exclusion patterns, and the
  returned list holds the walked page and one discovered item.
\<close>

theorem discovered_items_counterexample:
  "walk_files site_sitemap_link (uncapped cap_two) options_index_only
     (glob_sync site_sitemap_link (glob_pattern (includePatterns options_index_only))
        (publicDir options_index_only) (excludePatterns options_index_only))
     ([], [])
     = Inr ([plain_item ''https://example.com/index.html''],
            [''https://example.com/a.html'', ''https://example.com/sitemap.xml'',
             ''https://example.com/b.html''])
   \<and> walk_files site_sitemap_link cap_two options_index_only
       (glob_sync site_sitemap_link (glob_pattern (includePatterns options_index_only))
          (publicDir options_index_only) (excludePatterns options_index_only))
       ([], [])
     = Inr ([plain_item ''https://example.com/index.html''],
            [''https://example.com/a.html'', ''https://example.com/sitemap.xml''])
   \<and> buildUrls site_sitemap_link cap_two options_index_only
     = Inr [plain_item ''https://example.com/a.html'', plain_item ''https://example.com/index.html'']"
  by code_simp

section \<open>Properties of the run\<close>

subsection \<open>The check of the priority\<close>

text \<open>
  \<^verbatim>\<open>run\<close> checks the configured priority with \<^verbatim>\<open>parseFloat\<close>, which reads the longest
  prefix that is a decimal literal, and \<^verbatim>\<open>buildUrls\<close> reads the same string with
  \<^verbatim>\<open>Number\<close>, which reads the whole string and knows the prefix \<^verbatim>\<open>0x\<close>. The two
  runs below are on the one-page site, evaluated step by step.
\<close>

lemma site_single_paths:
  "path_join site_single ''/site'' ''sitemap.xml'' = ''/site/sitemap.xml''"
  "path_join site_single ''/site'' (path_basename site_single ''/site/sitemap.xml'' @ ''.gz'')
     = ''/site/sitemap.xml.gz''"
  "path_join site_single ''/site'' (replace_suffix ''.xml'' ''.txt'' ''sitemap.xml'')
     = ''/site/sitemap.txt''"
  by code_simp+

lemma site_single_writable: "writable site_single p"
  by (simp add: site_single_def site_def)

lemma action_priority_hex_inputs:
  "getInput action_priority_hex ''allow_autodetect'' = []"
  "getInput action_priority_hex ''site_url'' = ''https://example.com''"
  "getInput action_priority_hex ''public_dir'' = ''/site''"
  "getInput action_priority_hex ''priority'' = ''0x5''"
  "getInput action_priority_hex ''sitemap_output_dir'' = []"
  "getInput action_priority_hex ''sitemap_filename'' = []"
  "getEnv action_priority_hex ''TEST_CORRUPT_SITEMAP_INDEX'' = []"
  "parseFloat action_priority_hex ''0x5'' = Num 0"
  "MAX_URLS_PER_SITEMAP action_priority_hex = Some 50000"
  by code_simp+

lemma action_priority_hex_flags:
  "resolveBooleanInput action_priority_hex ''generate_sitemap_xml'' ''generate_xml_sitemap'' ''true''"
  "resolveBooleanInput action_priority_hex ''generate_sitemap_txt'' ''generate_txt_sitemap'' ''true''"
  "resolveBooleanInput action_priority_hex ''generate_sitemap_gzip'' ''generate_gzip'' ''true''"
  "is_true (or_else [] ''true'')"
  by code_simp+

lemma run_priority_hex_front:
  "run site_single default_limits action_priority_hex
     = run_configured site_single default_limits action_priority_hex ''https://example.com'' ''/site''"
  by (simp add: run_def Let_def action_priority_hex_inputs action_priority_hex_flags)

lemma run_options_priority_hex:
  "run_options action_priority_hex ''https://example.com'' ''/site'' = options_priority_hex"
  by code_simp

lemma options_priority_hex_fields:
  "additionalUrls options_priority_hex = []"
  "opt_priority options_priority_hex = Some ''0x5''"
  by (simp_all add: options_priority_hex_def default_options_def)

lemma early_validation_priority_hex:
  "early_validation action_priority_hex [] r = r"
  by (simp add: early_validation_def Let_def)

lemma site_single_checks:
  "is_http ''https://example.com''"
  "existsSync site_single ''/site''"
  "to_Number site_single ''0x5'' = Num 5"
  by code_simp+

lemma buildUrls_priority_hex:
  "buildUrls site_single default_limits options_priority_hex = Inr [item_priority_five]"
  by code_simp

lemma invalid_urls_priority_hex:
  "invalid_urls site_single (excludeUrls options_priority_hex)
     (excludeExtensions action_priority_hex) [item_priority_five] = Inr []"
  by code_simp

lemma chunks_of_priority_hex:
  "chunks_of (Some 50000) [item_priority_five] = Some [[item_priority_five]]"
  by (simp add: chunks_of_def split_chunks_def chunk_loop.simps[of _ "[item_priority_five]"]
        slice_def)

lemma generation_steps_priority_hex:
  "generation_steps site_single action_priority_hex ''https://example.com'' ''/site''
     [item_priority_five] [[item_priority_five]]
   = map Write writes_priority_five"
  by (simp add: generation_steps_def xml_steps_def txt_steps_def gzip_step_def Let_def or_else_def
        action_priority_hex_inputs action_priority_hex_flags site_single_paths
        writes_priority_five_def)

lemma perform_priority_hex:
  "perform site_single (map Write writes_priority_five) \<lparr>failures = [], writes = []\<rparr>
     = \<lparr>failures = [], writes = writes_priority_five\<rparr>"
  by (simp add: writes_priority_five_def site_single_writable)

lemma run_configured_priority_hex:
  "run_configured site_single default_limits action_priority_hex ''https://example.com'' ''/site''
     = Some \<lparr>failures = [], writes = writes_priority_five\<rparr>"
  by (simp only: run_configured_def Let_def run_options_priority_hex options_priority_hex_fields
        early_validation_priority_hex site_single_checks buildUrls_priority_hex
        invalid_urls_priority_hex action_priority_hex_inputs chunks_of_priority_hex
        generation_steps_priority_hex perform_priority_hex sum.case option.case simp_thms
        if_True if_False)

lemma action_priority_suffix_inputs:
  "getInput action_priority_suffix ''allow_autodetect'' = []"
  "getInput action_priority_suffix ''site_url'' = ''https://example.com''"
  "getInput action_priority_suffix ''public_dir'' = ''/site''"
  "getInput action_priority_suffix ''priority'' = ''0.5abc''"
  "getInput action_priority_suffix ''sitemap_output_dir'' = []"
  "getInput action_priority_suffix ''sitemap_filename'' = []"
  "getEnv action_priority_suffix ''TEST_CORRUPT_SITEMAP_INDEX'' = []"
  "parseFloat action_priority_suffix ''0.5abc'' = Num (1 / 2)"
  "MAX_URLS_PER_SITEMAP action_priority_suffix = Some 50000"
  by code_simp+

lemma action_priority_suffix_flags:
  "resolveBooleanInput action_priority_suffix ''generate_sitemap_xml'' ''generate_xml_sitemap'' ''true''"
  "resolveBooleanInput action_priority_suffix ''generate_sitemap_txt'' ''generate_txt_sitemap'' ''true''"
  "resolveBooleanInput action_priority_suffix ''generate_sitemap_gzip'' ''generate_gzip'' ''true''"
  "is_true (or_else [] ''true'')"
  by code_simp+

lemma run_priority_suffix_front:
  "run site_single default_limits action_priority_suffix
     = run_configured site_single default_limits action_priority_suffix ''https://example.com'' ''/site''"
  by (simp add: run_def Let_def action_priority_suffix_inputs action_priority_suffix_flags)

lemma run_options_priority_suffix:
  "run_options action_priority_suffix ''https://example.com'' ''/site'' = options_priority_suffix"
  by code_simp

lemma options_priority_suffix_fields:
  "additionalUrls options_priority_suffix = []"
  "opt_priority options_priority_suffix = Some ''0.5abc''"
  by (simp_all add: options_priority_suffix_def default_options_def)

lemma early_validation_priority_suffix:
  "early_validation action_priority_suffix [] r = r"
  by (simp add: early_validation_def Let_def)

lemma site_single_checks_suffix:
  "is_http ''https://example.com''"
  "existsSync site_single ''/site''"
  "to_Number site_single ''0.5abc'' = NaN"
  by code_simp+

lemma buildUrls_priority_suffix:
  "buildUrls site_single default_limits options_priority_suffix = Inr [item_priority_nan]"
  by code_simp

lemma invalid_urls_priority_suffix:
  "invalid_urls site_single (excludeUrls options_priority_suffix)
     (excludeExtensions action_priority_suffix) [item_priority_nan] = Inr []"
  by code_simp

lemma chunks_of_priority_suffix:
  "chunks_of (Some 50000) [item_priority_nan] = Some [[item_priority_nan]]"
  by (simp add: chunks_of_def split_chunks_def chunk_loop.simps[of _ "[item_priority_nan]"]
        slice_def)

lemma generation_steps_priority_suffix:
  "generation_steps site_single action_priority_suffix ''https://example.com'' ''/site''
     [item_priority_nan] [[item_priority_nan]]
   = map Write writes_priority_nan"
  by (simp add: generation_steps_def xml_steps_def txt_steps_def gzip_step_def Let_def or_else_def
        action_priority_suffix_inputs action_priority_suffix_flags site_single_paths
        writes_priority_nan_def)

lemma perform_priority_suffix:
  "perform site_single (map Write writes_priority_nan) \<lparr>failures = [], writes = []\<rparr>
     = \<lparr>failures = [], writes = writes_priority_nan\<rparr>"
  by (simp add: writes_priority_nan_def site_single_writable)

lemma run_configured_priority_suffix:
  "run_configured site_single default_limits action_priority_suffix ''https://example.com'' ''/site''
     = Some \<lparr>failures = [], writes = writes_priority_nan\<rparr>"
  by (simp only: run_configured_def Let_def run_options_priority_suffix options_priority_suffix_fields
        early_validation_priority_suffix site_single_checks_suffix buildUrls_priority_suffix
        invalid_urls_priority_suffix action_priority_suffix_inputs chunks_of_priority_suffix
        generation_steps_priority_suffix perform_priority_suffix sum.case option.case simp_thms
        if_True if_False)

text \<open>
  What the check covers: when \<^verbatim>\<open>parseFloat\<close> of the configured priority is \<^verbatim>\<open>NaN\<close>
  or lies outside \<open>[0, 1]\<close>, the run returns without having written a file.
\<close>

lemma priority_guard_returns_without_writes:
  assumes "getInput a ''priority'' \<noteq> []"
    and "isNaN (parseFloat a (getInput a ''priority''))
         \<or> below_zero (parseFloat a (getInput a ''priority''))
         \<or> above_one (parseFloat a (getInput a ''priority''))"
  shows "\<exists>r. run w lims a = Some r \<and> writes r = []
           \<and> failures r \<in> {[MissingSiteUrl], [MissingPublicDir],
                            [InvalidPriority (getInput a ''priority'')]}"
  using assms by (simp add: run_def Let_def fail_def)

text \<open>The run with the priority \<^verbatim>\<open>1.5\<close> on the one-page site.\<close>

lemma run_priority_high:
  "run site_single default_limits action_priority_high
     = Some \<lparr>failures = [InvalidPriority ''1.5''], writes = []\<rparr>"
  by code_simp

text \<open>
  C3 fails on the code. The priority \<^verbatim>\<open>0x5\<close> lies outside \<open>[0, 1]\<close>: \<^verbatim>\<open>Number\<close> reads
  it as 5, and that is the priority of the item in the sitemap. The priority
  \<^verbatim>\<open>0.5abc\<close> is not a number: \<^verbatim>\<open>Number\<close> reads it as \<^verbatim>\<open>NaN\<close>. The check of \<^verbatim>\<open>run\<close>
  reads them with \<^verbatim>\<open>parseFloat\<close> as 0 and as 0.5 and lets both pass: each run reports no
  failure and writes the XML sitemap, its gzip copy and the TXT sitemap.
\<close>

theorem priority_check_misses_invalid_values:
  "getInput action_priority_hex ''priority'' = ''0x5''
   \<and> parseFloat action_priority_hex ''0x5'' = Num 0
   \<and> to_Number site_single ''0x5'' = Num 5
   \<and> above_one (Num 5)
   \<and> run site_single default_limits action_priority_hex
       = Some \<lparr>failures = [], writes = writes_priority_five\<rparr>
   \<and> getInput action_priority_suffix ''priority'' = ''0.5abc''
   \<and> parseFloat action_priority_suffix ''0.5abc'' = Num (1 / 2)
   \<and> to_Number site_single ''0.5abc'' = NaN
   \<and> run site_single default_limits action_priority_suffix
       = Some \<lparr>failures = [], writes = writes_priority_nan\<rparr>"
  by (simp add: action_priority_hex_inputs site_single_checks run_priority_hex_front
        run_configured_priority_hex action_priority_suffix_inputs site_single_checks_suffix
        run_priority_suffix_front run_configured_priority_suffix)
end
